theory Spec2Isabelle
  imports Complex_Main "HOL-Library.Word"
begin

section \<open>The audio visualizer of \<^verbatim>\<open>web/audio_visualizer.js\<close>\<close>

text \<open>
  The development embeds the class \<^verbatim>\<open>AudioVisualizer\<close>: its helpers on strings and
  numbers, its three renderers as producers of canvas calls, and its lifecycle methods as
  transformers of an explicit state that holds the object's fields next to the part of the
  browser they read and write.
\<close>

subsection \<open>JavaScript strings: \<^verbatim>\<open>lastIndexOf\<close> and \<^verbatim>\<open>substring\<close>\<close>

text \<open>
  \<^verbatim>\<open>s.lastIndexOf(c)\<close> for a one-unit search string: the greatest index holding \<open>c\<close>,
  or \<open>-1\<close> when there is none.
\<close>

fun lastIndexOf :: "string \<Rightarrow> char \<Rightarrow> int" where
  "lastIndexOf [] c = - 1"
| "lastIndexOf (x # xs) c =
     (let r = lastIndexOf xs c
      in if r \<noteq> - 1 then r + 1 else if x = c then 0 else - 1)"

text \<open>
  \<^verbatim>\<open>s.substring(start, fin)\<close>: both indices are clamped to \<open>[0, length]\<close> and swapped
  when they come in the wrong order. \<^verbatim>\<open>s.substring(start)\<close> runs to the end.
\<close>

definition substring :: "string \<Rightarrow> int \<Rightarrow> int \<Rightarrow> string" where
  "substring s start fin =
     (let len = int (length s);
          a = min (max start 0) len;
          b = min (max fin 0) len;
          lo = min a b;
          hi = max a b
      in take (nat (hi - lo)) (drop (nat lo) s))"

definition substring_from :: "string \<Rightarrow> int \<Rightarrow> string" where
  "substring_from s start = substring s start (int (length s))"

subsection \<open>\<^verbatim>\<open>getAudioUrl\<close>\<close>

text \<open>
  The first half of \<^verbatim>\<open>getAudioUrl\<close> parses the identifier into \<open>(filename, subfolder)\<close>;
  the second half joins the query. \<^verbatim>\<open>encodeURIComponent\<close>, the cache parameter
  (\<^verbatim>\<open>app.getRandParam\<close> or the clock) and \<^verbatim>\<open>app.api.apiURL\<close> belong to the host and
  are parameters here. \<^verbatim>\<open>encodeURIComponent\<close> can throw, which the \<^verbatim>\<open>catch\<close> turns into
  \<^verbatim>\<open>null\<close>.
\<close>

definition parseAudioValue :: "string \<Rightarrow> string \<times> string" where
  "parseAudioValue audioValue =
     (let folderSeparator = lastIndexOf audioValue (CHR ''/'')
      in if folderSeparator = - 1
         then (audioValue, [])
         else (substring_from audioValue (folderSeparator + 1),
               substring audioValue 0 folderSeparator))"

definition getAudioUrl ::
  "(string \<Rightarrow> string option) \<Rightarrow> string \<Rightarrow> (string \<Rightarrow> string) option \<Rightarrow> string \<Rightarrow> string option"
where
  "getAudioUrl encode rand api audioValue =
     (case parseAudioValue audioValue of (filename, subfolder) \<Rightarrow>
        (case encode filename of
           None \<Rightarrow> None
         | Some f \<Rightarrow>
             (case encode subfolder of
                None \<Rightarrow> None
              | Some d \<Rightarrow>
                  (let params = ''filename='' @ f @ ''&'' @ ''type=input'' @ ''&''
                                  @ ''subfolder='' @ d @ ''&'' @ rand;
                       resourceUrl = ''/view?'' @ params
                   in case api of
                        Some url \<Rightarrow> Some (url resourceUrl)
                      | None \<Rightarrow> Some resourceUrl))))"

subsection \<open>JavaScript numbers and values\<close>

text \<open>
  A JavaScript number is a finite value, an infinity or \<^verbatim>\<open>NaN\<close>. Finite values are
  real numbers here: the rounding of doubles and the sign of zero are outside the model.
\<close>

datatype jsnum = Finite real | PosInf | NegInf | NaN

text \<open>The comparison \<^verbatim>\<open>a < b\<close>: false as soon as one side is \<^verbatim>\<open>NaN\<close>.\<close>

fun js_less :: "jsnum \<Rightarrow> jsnum \<Rightarrow> bool" where
  "js_less NaN _ = False"
| "js_less _ NaN = False"
| "js_less (Finite a) (Finite b) = (a < b)"
| "js_less PosInf _ = False"
| "js_less _ PosInf = True"
| "js_less _ NegInf = False"
| "js_less NegInf _ = True"

definition Math_min :: "jsnum \<Rightarrow> jsnum \<Rightarrow> jsnum" where
  "Math_min a b = (if a = NaN \<or> b = NaN then NaN else if js_less b a then b else a)"

definition Math_max :: "jsnum \<Rightarrow> jsnum \<Rightarrow> jsnum" where
  "Math_max a b = (if a = NaN \<or> b = NaN then NaN else if js_less a b then b else a)"

text \<open>The sum \<^verbatim>\<open>a + b\<close> of two numbers.\<close>

fun js_add :: "jsnum \<Rightarrow> jsnum \<Rightarrow> jsnum" where
  "js_add NaN _ = NaN"
| "js_add _ NaN = NaN"
| "js_add (Finite a) (Finite b) = Finite (a + b)"
| "js_add PosInf NegInf = NaN"
| "js_add NegInf PosInf = NaN"
| "js_add PosInf _ = PosInf"
| "js_add NegInf _ = NegInf"
| "js_add _ PosInf = PosInf"
| "js_add _ NegInf = NegInf"

text \<open>
  Reading a string as a number (\<^verbatim>\<open>StringToNumber\<close> of the language standard, over
  ASCII): blanks around the text are dropped; the empty text is \<open>0\<close>; a decimal literal
  may have a sign, a fraction and an exponent; \<^verbatim>\<open>Infinity\<close> may have a sign; literals in
  base 16, 8 and 2 have a prefix and no sign; every other text is \<^verbatim>\<open>NaN\<close>.
\<close>

definition is_digit :: "char \<Rightarrow> bool" where
  "is_digit c = (c \<in> set ''0123456789'')"

definition is_space :: "char \<Rightarrow> bool" where
  "is_space c = (c \<in> set [CHR '' '', CHR 0x09, CHR 0x0A, CHR 0x0B, CHR 0x0C, CHR 0x0D])"

definition trim :: "string \<Rightarrow> string" where
  "trim s = rev (dropWhile is_space (rev (dropWhile is_space s)))"

definition digit_in :: "nat \<Rightarrow> char \<Rightarrow> nat option" where
  "digit_in radix c =
     (let v = (if is_digit c then of_char c - 48
               else if c \<in> set ''abcdef'' then of_char c - 87
               else if c \<in> set ''ABCDEF'' then of_char c - 55
               else radix)
      in if v < radix then Some v else None)"

fun digits_in :: "nat \<Rightarrow> nat \<Rightarrow> string \<Rightarrow> nat option" where
  "digits_in radix acc [] = Some acc"
| "digits_in radix acc (c # cs) =
     (case digit_in radix c of
        None \<Rightarrow> None
      | Some v \<Rightarrow> digits_in radix (radix * acc + v) cs)"

definition natural :: "nat \<Rightarrow> string \<Rightarrow> nat option" where
  "natural radix ds = (if ds = [] then None else digits_in radix 0 ds)"

definition exponent :: "string \<Rightarrow> int option" where
  "exponent s =
     (case s of
        [] \<Rightarrow> Some 0
      | c # r \<Rightarrow>
          if c = CHR ''e'' \<or> c = CHR ''E''
          then (case r of
                  [] \<Rightarrow> None
                | d # r' \<Rightarrow>
                    if d = CHR ''-'' then map_option (\<lambda>n. - int n) (natural 10 r')
                    else if d = CHR ''+'' then map_option int (natural 10 r')
                    else map_option int (natural 10 r))
          else None)"

definition scale :: "real \<Rightarrow> int \<Rightarrow> real" where
  "scale x k = (if 0 \<le> k then x * 10 ^ nat k else x / 10 ^ nat (- k))"

definition unsigned_decimal :: "string \<Rightarrow> jsnum" where
  "unsigned_decimal s =
     (if s = ''Infinity'' then PosInf
      else
        (let whole = takeWhile is_digit s;
             r1 = dropWhile is_digit s;
             dotted = (r1 \<noteq> [] \<and> hd r1 = CHR ''.'');
             part = (if dotted then takeWhile is_digit (tl r1) else []);
             r2 = (if dotted then dropWhile is_digit (tl r1) else r1)
         in if whole = [] \<and> part = [] then NaN
            else case (digits_in 10 0 whole, digits_in 10 0 part, exponent r2) of
                   (Some w, Some f, Some k) \<Rightarrow>
                     Finite (scale (real w + real f / 10 ^ length part) k)
                 | _ \<Rightarrow> NaN))"

definition negated :: "jsnum \<Rightarrow> jsnum" where
  "negated n = (case n of Finite x \<Rightarrow> Finite (- x) | PosInf \<Rightarrow> NegInf | NegInf \<Rightarrow> PosInf
                | NaN \<Rightarrow> NaN)"

definition prefixed :: "nat \<Rightarrow> string \<Rightarrow> jsnum" where
  "prefixed radix ds = (case natural radix ds of Some n \<Rightarrow> Finite (real n) | None \<Rightarrow> NaN)"

definition StringToNumber :: "string \<Rightarrow> jsnum" where
  "StringToNumber s =
     (let t = trim s
      in if t = [] then Finite 0
         else if take 2 t = ''0x'' \<or> take 2 t = ''0X'' then prefixed 16 (drop 2 t)
         else if take 2 t = ''0o'' \<or> take 2 t = ''0O'' then prefixed 8 (drop 2 t)
         else if take 2 t = ''0b'' \<or> take 2 t = ''0B'' then prefixed 2 (drop 2 t)
         else if hd t = CHR ''-'' then negated (unsigned_decimal (tl t))
         else if hd t = CHR ''+'' then unsigned_decimal (tl t)
         else unsigned_decimal t)"

text \<open>
  The values a caller can hand to a setter: nothing (\<^verbatim>\<open>undefined\<close>, \<^verbatim>\<open>null\<close>), a
  boolean, a number (\<^verbatim>\<open>parseFloat\<close> gives a number or \<^verbatim>\<open>NaN\<close>) or a string. Objects
  are not modelled.
\<close>

datatype jsval = JSUndefined | JSNull | JSBoolean bool | JSNumber jsnum | JSString string

fun truthy :: "jsval \<Rightarrow> bool" where
  "truthy JSUndefined = False"
| "truthy JSNull = False"
| "truthy (JSBoolean b) = b"
| "truthy (JSNumber n) = (n \<noteq> NaN \<and> n \<noteq> Finite 0)"
| "truthy (JSString s) = (s \<noteq> [])"

fun ToNumber :: "jsval \<Rightarrow> jsnum" where
  "ToNumber JSUndefined = NaN"
| "ToNumber JSNull = Finite 0"
| "ToNumber (JSBoolean b) = Finite (if b then 1 else 0)"
| "ToNumber (JSNumber n) = n"
| "ToNumber (JSString s) = StringToNumber s"

text \<open>\<^verbatim>\<open>a || b\<close>\<close>

definition js_or :: "jsval \<Rightarrow> jsval \<Rightarrow> jsval" where
  "js_or a b = (if truthy a then a else b)"

subsection \<open>Sample buffers\<close>

text \<open>
  A \<^verbatim>\<open>Uint8Array\<close> is a list of bytes. Reading it at an index gives the byte as a
  number, and \<^verbatim>\<open>undefined\<close> (here \<open>None\<close>) outside the array; arithmetic on
  \<^verbatim>\<open>undefined\<close> gives \<^verbatim>\<open>NaN\<close>.
\<close>

type_synonym byte = "8 word"

definition read_at :: "byte list \<Rightarrow> nat \<Rightarrow> real option" where
  "read_at dataArray i = (if i < length dataArray then Some (real (unat (dataArray ! i))) else None)"

definition num :: "(real \<Rightarrow> real) \<Rightarrow> real option \<Rightarrow> jsnum" where
  "num f v = (case v of None \<Rightarrow> NaN | Some b \<Rightarrow> Finite (f b))"

subsection \<open>The analyser node\<close>

text \<open>
  What the Web Audio analyser gives the renderers. \<^verbatim>\<open>frequencyBinCount\<close> is half the
  FFT size. A read copies the current data into the array it is handed, as many values as
  the array and the data have in common, and leaves the rest of the array as it was; the
  length of the array never changes. The data of the current instant comes from the
  environment.
\<close>

record analyser =
  an_context :: nat
  an_fftSize :: nat
  smoothingTimeConstant :: real

record env =
  rect_width :: real
  rect_height :: real
  timeDomain :: "nat \<Rightarrow> byte"
  frequency :: "nat \<Rightarrow> byte"
  audioSupported :: bool
  encodeURIComponent :: "string \<Rightarrow> string option"
  randParam :: string
  apiURL :: "(string \<Rightarrow> string) option"

definition frequencyBinCount :: "analyser \<Rightarrow> nat" where
  "frequencyBinCount an = an_fftSize an div 2"

definition getByteTimeDomainData :: "analyser \<Rightarrow> env \<Rightarrow> byte list \<Rightarrow> byte list" where
  "getByteTimeDomainData an e dataArray =
     (let n = min (length dataArray) (an_fftSize an)
      in map (timeDomain e) [0..<n] @ drop n dataArray)"

definition getByteFrequencyData :: "analyser \<Rightarrow> env \<Rightarrow> byte list \<Rightarrow> byte list" where
  "getByteFrequencyData an e dataArray =
     (let n = min (length dataArray) (frequencyBinCount an)
      in map (frequency e) [0..<n] @ drop n dataArray)"

text \<open>The FFT sizes the analyser accepts, and the ones the visualizer is configured with.\<close>

definition accepted_fftSize :: "nat \<Rightarrow> bool" where
  "accepted_fftSize n =
     (n \<in> set [32, 64, 128, 256, 512, 1024, 2048, 4096, 8192, 16384, 32768])"

definition valid_fftSize :: "nat \<Rightarrow> bool" where
  "valid_fftSize n = (n \<in> set [128, 256, 512, 1024, 2048, 4096, 8192, 16384, 32768])"

subsection \<open>The canvas\<close>

text \<open>
  The 2D context is modelled by the calls made on it, in order. Coordinates are numbers
  that may be \<^verbatim>\<open>NaN\<close>. \<^verbatim>\<open>hexToRgba(hex, alpha)\<close> is kept as the pair of its arguments.
  Colours are taken to be well-formed CSS colours, as the defaults of the configuration
  are. Two of the calls made here can throw: \<^verbatim>\<open>arc\<close> refuses a negative radius with an
  \<^verbatim>\<open>IndexSizeError\<close>, and \<^verbatim>\<open>createLinearGradient\<close> refuses a coordinate that is not
  finite with a \<^verbatim>\<open>TypeError\<close>. The other calls get finite arguments from the code, or
  ignore an argument that is not finite.
\<close>

datatype exn = IndexSizeError | TypeError

datatype colour = Css string | HexToRgba string real

datatype style =
    Plain colour
  | LinearGradient jsnum jsnum jsnum jsnum "(real \<times> colour) list"
  | RadialGradient jsnum jsnum jsnum jsnum jsnum jsnum "(real \<times> colour) list"

datatype image = Image nat nat

text \<open>
  The texts of \<^verbatim>\<open>drawPlaceholder\<close>: the default prompt to load a file, and the failure
  notices of the call sites.
\<close>

datatype notice =
    LoadPrompt | CannotLoadFile | CannotConnect | CannotConnectError | Unsupported | LoadFailed

datatype canvas_op =
    SetFillStyle style
  | SetStrokeStyle style
  | SetLineWidth real
  | SetGlobalAlpha jsnum
  | FillRect jsnum jsnum jsnum jsnum
  | DrawImage image jsnum jsnum jsnum jsnum
  | Save
  | Restore
  | BeginPath
  | MoveTo jsnum jsnum
  | LineTo jsnum jsnum
  | Arc jsnum jsnum jsnum jsnum jsnum
  | Stroke
  | Fill
  | SetFont string
  | SetTextAlign string
  | SetTextBaseline string
  | FillText notice jsnum jsnum

record canvas_el =
  width :: nat
  height :: nat

subsection \<open>Configuration\<close>

definition WAVE :: string where "WAVE = ''wave''"
definition BARS :: string where "BARS = ''bars''"
definition CIRCULAR :: string where "CIRCULAR = ''circular''"

record config =
  mode :: string
  fftSize :: nat
  primaryColor :: string
  secondaryColor :: string
  backgroundColor :: string

subsection \<open>The state: the visualizer and the browser objects it touches\<close>

text \<open>
  An audio element, as far as the visualizer reads or writes it. \<open>marker\<close> is the
  property \<^verbatim>\<open>_audioVisualizerSource\<close> the visualizer stores on the element; \<open>requested\<close>
  counts the calls of \<^verbatim>\<open>createMediaElementSource\<close> made for the element so far. A
  source node belongs to the audio context that made it. Elements are named by where they
  come from: a widget of the host, or \<^verbatim>\<open>new Audio(url)\<close> in \<^verbatim>\<open>loadAudio\<close>.
\<close>

record media_source =
  src_id :: nat
  src_context :: nat

record audio_el =
  paused :: bool
  readyState :: nat
  src :: string
  currentTime :: real
  marker :: "media_source option"
  requested :: nat

datatype el_id = Widget nat | Created nat

text \<open>
  The first group of fields are those of the \<^verbatim>\<open>AudioVisualizer\<close> object (\<open>None\<close> is
  \<^verbatim>\<open>null\<close>; \<open>ctx\<close> holds the calls made on the 2D context so far; the three \<open>prop_\<close>
  fields are the entries of \<^verbatim>\<open>node.properties\<close> the object writes; \<open>audioUI\<close> is the
  element of the node's \<^verbatim>\<open>audioUI\<close> widget). The second group is the browser: the audio
  elements, the audio contexts that were closed, which source node feeds which context's
  analyser and destination, the animation frames requested and not yet run or cancelled,
  and the callbacks waiting for \<^verbatim>\<open>loadeddata\<close> or for their timeout.
\<close>

record state =
  canvas :: "canvas_el option"
  ctx :: "canvas_op list option"
  audioContext :: "nat option"
  analyser :: "analyser option"
  audioElement :: "el_id option"
  source :: "media_source option"
  animationFrameId :: "nat option"
  isInitialized :: bool
  isOfficialNode :: bool
  config :: config
  backgroundOpacity :: jsnum
  backgroundImageCanvas :: "image option"
  visualizerEnabled :: bool
  prop_mode :: "string option"
  prop_opacity :: "jsnum option"
  prop_enabled :: "bool option"
  audioUI :: "el_id option"
  elements :: "el_id \<Rightarrow> audio_el"
  closedContexts :: "nat set"
  wired :: "nat \<Rightarrow> nat option"
  nextId :: nat
  pendingFrames :: "nat list"
  lastFrame :: nat
  loadedListeners :: "el_id list"
  timers :: "el_id list"

subsection \<open>\<^verbatim>\<open>setBackgroundOpacity\<close> and \<^verbatim>\<open>renderBackground\<close>\<close>

text \<open>
  \<^verbatim>\<open>Math.max(0, Math.min(0.5, value || 0))\<close> is stored in the object and, for an official
  node, in the node's properties. The refresh of the menu is not modelled.
\<close>

definition clampOpacity :: "jsval \<Rightarrow> jsnum" where
  "clampOpacity v =
     Math_max (Finite 0) (Math_min (Finite (1 / 2)) (ToNumber (js_or v (JSNumber (Finite 0)))))"

definition setBackgroundOpacity :: "jsval \<Rightarrow> state \<Rightarrow> state" where
  "setBackgroundOpacity v s =
     (let s1 = s\<lparr>backgroundOpacity := clampOpacity v\<rparr>
      in if isOfficialNode s1 then s1\<lparr>prop_opacity := Some (backgroundOpacity s1)\<rparr> else s1)"

definition renderBackground :: "state \<Rightarrow> nat \<Rightarrow> nat \<Rightarrow> canvas_op list" where
  "renderBackground s WIDTH HEIGHT =
     [SetFillStyle (Plain (Css (backgroundColor (config s)))),
      FillRect (Finite 0) (Finite 0) (Finite (real WIDTH)) (Finite (real HEIGHT))]
     @ (case backgroundImageCanvas s of
          Some img \<Rightarrow>
            [Save,
             SetGlobalAlpha
               (Math_max (Finite 0)
                  (Math_min (Finite 1) (js_add (backgroundOpacity s) (Finite (5 / 100))))),
             DrawImage img (Finite 0) (Finite 0) (Finite (real WIDTH)) (Finite (real HEIGHT)),
             Restore]
        | None \<Rightarrow>
            if js_less (Finite 0) (backgroundOpacity s)
            then
              [Save,
               SetGlobalAlpha (backgroundOpacity s),
               SetFillStyle
                 (RadialGradient
                    (Finite (real WIDTH * (3 / 10))) (Finite (real HEIGHT * (3 / 10))) (Finite 0)
                    (Finite (real WIDTH * (3 / 10))) (Finite (real HEIGHT * (3 / 10)))
                    (Finite (real (max WIDTH HEIGHT)))
                    [(0, HexToRgba (primaryColor (config s)) (35 / 100)),
                     (1, Css ''transparent'')]),
               FillRect (Finite 0) (Finite 0) (Finite (real WIDTH)) (Finite (real HEIGHT)),
               SetFillStyle
                 (LinearGradient (Finite 0) (Finite 0) (Finite (real WIDTH)) (Finite (real HEIGHT))
                    [(0, HexToRgba (secondaryColor (config s)) (15 / 100)),
                     (1, Css ''transparent'')]),
               FillRect (Finite 0) (Finite 0) (Finite (real WIDTH)) (Finite (real HEIGHT)),
               Restore]
            else [])"

subsection \<open>The renderers\<close>

text \<open>
  Each renderer first lets the analyser fill the array it was handed, then issues its
  canvas calls; it returns the array as filled and the calls. A renderer that can throw
  returns the calls made before the exception, and the exception. The \<^verbatim>\<open>for\<close> loops are
  recursive functions of the loop variables. \<^verbatim>\<open>sliceWidth\<close> and \<^verbatim>\<open>barWidth\<close> divide by
  \<^verbatim>\<open>bufferLength\<close>; they are only used inside loops that run when it is positive.
\<close>

function drawWave_main ::
  "byte list \<Rightarrow> real \<Rightarrow> nat \<Rightarrow> nat \<Rightarrow> nat \<Rightarrow> real \<Rightarrow> canvas_op list"
where
  "drawWave_main dataArray sliceWidth HEIGHT bufferLength i x =
     (if i < bufferLength
      then (let y = num (\<lambda>b. (b / 128 * real HEIGHT) / 2) (read_at dataArray i)
            in (if i = 0 then MoveTo (Finite x) y else LineTo (Finite x) y)
               # drawWave_main dataArray sliceWidth HEIGHT bufferLength (i + 1) (x + sliceWidth))
      else [])"
  by pat_completeness auto
termination
  by (relation "measure (\<lambda>(dataArray, sliceWidth, HEIGHT, bufferLength, i, x). bufferLength - i)")
    auto

function drawWave_aux ::
  "byte list \<Rightarrow> real \<Rightarrow> nat \<Rightarrow> nat \<Rightarrow> nat \<Rightarrow> real \<Rightarrow> canvas_op list"
where
  "drawWave_aux dataArray sliceWidth HEIGHT bufferLength i x =
     (if i < bufferLength
      then (let y = num (\<lambda>b. (b / 128 * real HEIGHT) / 2 + 5) (read_at dataArray i)
            in (if i = 0 then MoveTo (Finite x) y else LineTo (Finite x) y)
               # drawWave_aux dataArray sliceWidth HEIGHT bufferLength (i + 5)
                   (x + sliceWidth * 5))
      else [])"
  by pat_completeness auto
termination
  by (relation "measure (\<lambda>(dataArray, sliceWidth, HEIGHT, bufferLength, i, x). bufferLength - i)")
    auto

definition drawWave ::
  "config \<Rightarrow> analyser \<Rightarrow> env \<Rightarrow> byte list \<Rightarrow> nat \<Rightarrow> nat \<Rightarrow> nat \<Rightarrow> byte list \<times> canvas_op list"
where
  "drawWave cfg an e dataArray WIDTH HEIGHT bufferLength =
     (let filled = getByteTimeDomainData an e dataArray;
          sliceWidth = real WIDTH / real bufferLength
      in (filled,
          [SetLineWidth 2, SetStrokeStyle (Plain (Css (primaryColor cfg))), BeginPath]
          @ drawWave_main filled sliceWidth HEIGHT bufferLength 0 0
          @ [LineTo (Finite (real WIDTH)) (Finite (real HEIGHT / 2)), Stroke,
             SetLineWidth 1, SetStrokeStyle (Plain (Css (secondaryColor cfg))), BeginPath]
          @ drawWave_aux filled sliceWidth HEIGHT bufferLength 0 0
          @ [Stroke]))"

text \<open>
  In \<^verbatim>\<open>drawBars\<close> a read outside the array gives the bar height \<^verbatim>\<open>NaN\<close>, which
  \<^verbatim>\<open>createLinearGradient\<close> refuses.
\<close>

function drawBars_loop ::
  "config \<Rightarrow> byte list \<Rightarrow> real \<Rightarrow> nat \<Rightarrow> nat \<Rightarrow> nat \<Rightarrow> nat \<Rightarrow> real
   \<Rightarrow> canvas_op list \<times> exn option"
where
  "drawBars_loop cfg dataArray barWidth WIDTH HEIGHT bufferLength i x =
     (if i < bufferLength
      then (case read_at dataArray i of
              None \<Rightarrow> ([], Some TypeError)
            | Some b \<Rightarrow>
                (let barHeight = (b / 255) * real HEIGHT;
                     top = real HEIGHT - barHeight;
                     gradient = LinearGradient (Finite 0) (Finite (real HEIGHT)) (Finite 0)
                                  (Finite top)
                                  [(0, Css (secondaryColor cfg)), (1, Css (primaryColor cfg))];
                     bar = [SetFillStyle gradient,
                            FillRect (Finite x) (Finite top) (Finite barWidth) (Finite barHeight)];
                     x' = x + (barWidth + 1)
                 in if x' > real WIDTH then (bar, None)
                    else (let r = drawBars_loop cfg dataArray barWidth WIDTH HEIGHT bufferLength
                                    (i + 1) x'
                          in (bar @ fst r, snd r))))
      else ([], None))"
  by pat_completeness auto
termination
  by (relation
        "measure (\<lambda>(cfg, dataArray, barWidth, WIDTH, HEIGHT, bufferLength, i, x). bufferLength - i)")
    auto

definition drawBars ::
  "config \<Rightarrow> analyser \<Rightarrow> env \<Rightarrow> byte list \<Rightarrow> nat \<Rightarrow> nat \<Rightarrow> nat
   \<Rightarrow> byte list \<times> canvas_op list \<times> exn option"
where
  "drawBars cfg an e dataArray WIDTH HEIGHT bufferLength =
     (let filled = getByteFrequencyData an e dataArray;
          barWidth = (real WIDTH / real bufferLength) * (25 / 10)
      in (filled, drawBars_loop cfg filled barWidth WIDTH HEIGHT bufferLength 0 0))"

text \<open>
  The circular spectrum: a disc, then \<^verbatim>\<open>barsToDraw\<close> radial bars, bar \<open>i\<close> at the angle
  \<open>i * angleStep\<close> with the value read at the index \<open>i * step\<close>. The disc has the radius
  \<^verbatim>\<open>Math.min(WIDTH, HEIGHT) / 4 - 10\<close>; when this is negative \<^verbatim>\<open>arc\<close> throws, after
  \<^verbatim>\<open>beginPath\<close> and before anything is drawn.
\<close>

definition barsToDraw :: nat where
  "barsToDraw = 180"

definition circular_step :: "nat \<Rightarrow> nat" where
  "circular_step bufferLength = bufferLength div barsToDraw"

definition angleStep :: real where
  "angleStep = (2 * pi) / real barsToDraw"

definition circular_bar ::
  "config \<Rightarrow> nat \<Rightarrow> nat \<Rightarrow> real option \<Rightarrow> nat \<Rightarrow> canvas_op list"
where
  "circular_bar cfg WIDTH HEIGHT v i =
     (let centerX = real WIDTH / 2;
          centerY = real HEIGHT / 2;
          radius = real (min WIDTH HEIGHT) / 4;
          barHeight = (\<lambda>b. (b / 255) * (real (min WIDTH HEIGHT) / 3));
          angle = real i * angleStep;
          x1 = Finite (centerX + cos angle * radius);
          y1 = Finite (centerY + sin angle * radius);
          x2 = num (\<lambda>b. centerX + cos angle * (radius + barHeight b)) v;
          y2 = num (\<lambda>b. centerY + sin angle * (radius + barHeight b)) v;
          x3 = num (\<lambda>b. centerX + cos angle * (radius - barHeight b * (3 / 10))) v;
          y3 = num (\<lambda>b. centerY + sin angle * (radius - barHeight b * (3 / 10))) v
      in [SetStrokeStyle (Plain (Css (primaryColor cfg))), SetLineWidth 2,
          BeginPath, MoveTo x1 y1, LineTo x2 y2, Stroke,
          SetStrokeStyle (Plain (Css (secondaryColor cfg))),
          BeginPath, MoveTo x1 y1, LineTo x3 y3, Stroke])"

definition circular_disc :: "config \<Rightarrow> nat \<Rightarrow> nat \<Rightarrow> canvas_op list \<times> exn option" where
  "circular_disc cfg WIDTH HEIGHT =
     (let radius = real (min WIDTH HEIGHT) / 4
      in if radius - 10 < 0 then ([BeginPath], Some IndexSizeError)
         else ([BeginPath,
                Arc (Finite (real WIDTH / 2)) (Finite (real HEIGHT / 2))
                    (Finite (radius - 10)) (Finite 0) (Finite (2 * pi)),
                SetFillStyle (Plain (HexToRgba (secondaryColor cfg) (2 / 10))),
                Fill],
               None))"

definition circular_bars :: "config \<Rightarrow> byte list \<Rightarrow> nat \<Rightarrow> nat \<Rightarrow> nat \<Rightarrow> canvas_op list" where
  "circular_bars cfg filled WIDTH HEIGHT step =
     concat (map (\<lambda>i. circular_bar cfg WIDTH HEIGHT (read_at filled (i * step)) i)
               [0..<barsToDraw])"

definition drawCircular ::
  "config \<Rightarrow> analyser \<Rightarrow> env \<Rightarrow> byte list \<Rightarrow> nat \<Rightarrow> nat \<Rightarrow> nat
   \<Rightarrow> byte list \<times> canvas_op list \<times> exn option"
where
  "drawCircular cfg an e dataArray WIDTH HEIGHT bufferLength =
     (let filled = getByteFrequencyData an e dataArray;
          step = circular_step bufferLength
      in case circular_disc cfg WIDTH HEIGHT of
           (disc, Some x) \<Rightarrow> (filled, disc, Some x)
         | (disc, None) \<Rightarrow>
             (filled, disc @ circular_bars cfg filled WIDTH HEIGHT step, None))"

subsection \<open>The render loop\<close>

text \<open>
  \<^verbatim>\<open>requestAnimationFrame\<close> hands out a fresh handle, never zero, and remembers the
  request; \<^verbatim>\<open>cancelAnimationFrame\<close> forgets it. Only the requests of the render loop
  are kept here.
\<close>

definition requestAnimationFrame :: "state \<Rightarrow> nat \<times> state" where
  "requestAnimationFrame s =
     (let h = lastFrame s + 1
      in (h, s\<lparr>lastFrame := h, pendingFrames := pendingFrames s @ [h]\<rparr>))"

definition cancelAnimationFrame :: "nat \<Rightarrow> state \<Rightarrow> state" where
  "cancelAnimationFrame h s = s\<lparr>pendingFrames := removeAll h (pendingFrames s)\<rparr>"

definition stopVisualization :: "state \<Rightarrow> state" where
  "stopVisualization s =
     (case animationFrameId s of
        None \<Rightarrow> s
      | Some h \<Rightarrow>
          if h \<noteq> 0 then (cancelAnimationFrame h s)\<lparr>animationFrameId := None\<rparr> else s)"

text \<open>
  A frame. The array of the frame has \<^verbatim>\<open>frequencyBinCount\<close> bytes, whichever renderer
  gets it. Assigning a fractional size to the canvas keeps its integer part. When the
  renderer throws, \<^verbatim>\<open>draw\<close> ends there: the calls made so far stay on the canvas, and the
  next frame is not requested. \<^verbatim>\<open>draw\<close> and the functions that let the exception pass
  return it beside the state.
\<close>

definition newDataArray :: "analyser \<Rightarrow> byte list" where
  "newDataArray an = replicate (frequencyBinCount an) 0"

definition resized :: "env \<Rightarrow> canvas_el \<Rightarrow> canvas_el" where
  "resized e cv =
     (if rect_width e > 0 \<and> rect_height e > 0
      then (if real (width cv) \<noteq> rect_width e \<or> real (height cv) \<noteq> rect_height e
            then cv\<lparr>width := nat \<lfloor>rect_width e\<rfloor>, height := nat \<lfloor>max 200 (rect_height e)\<rfloor>\<rparr>
            else cv)
      else cv)"

definition dispatch ::
  "config \<Rightarrow> analyser \<Rightarrow> env \<Rightarrow> byte list \<Rightarrow> nat \<Rightarrow> nat \<Rightarrow> nat \<Rightarrow> canvas_op list \<times> exn option"
where
  "dispatch cfg an e dataArray WIDTH HEIGHT bufferLength =
     (if mode cfg = WAVE
      then (snd (drawWave cfg an e dataArray WIDTH HEIGHT bufferLength), None)
      else if mode cfg = BARS then snd (drawBars cfg an e dataArray WIDTH HEIGHT bufferLength)
      else if mode cfg = CIRCULAR
      then snd (drawCircular cfg an e dataArray WIDTH HEIGHT bufferLength)
      else ([], None))"

definition draw :: "env \<Rightarrow> state \<Rightarrow> exn option \<times> state" where
  "draw e s =
     (case (ctx s, analyser s, canvas s) of
        (Some calls, Some an, Some cv) \<Rightarrow>
          (let cv' = resized e cv;
               WIDTH = width cv';
               HEIGHT = height cv';
               bufferLength = frequencyBinCount an;
               dataArray = newDataArray an;
               (painted, thrown) = dispatch (config s) an e dataArray WIDTH HEIGHT bufferLength;
               s1 = s\<lparr>canvas := Some cv',
                      ctx := Some (calls @ renderBackground s WIDTH HEIGHT @ painted)\<rparr>
           in case thrown of
                Some x \<Rightarrow> (Some x, s1)
              | None \<Rightarrow>
                  (let (h, s2) = requestAnimationFrame s1
                   in (None, s2\<lparr>animationFrameId := Some h\<rparr>)))
      | _ \<Rightarrow> (None, s))"

definition startVisualization :: "env \<Rightarrow> state \<Rightarrow> exn option \<times> state" where
  "startVisualization e s =
     (if \<not> isInitialized s \<or> analyser s = None \<or> ctx s = None then (None, s)
      else draw e (stopVisualization s))"

text \<open>
  The browser runs the callback of a pending request: the request is gone, the frame is
  drawn. An exception of the frame goes to the browser.
\<close>

definition runFrame :: "env \<Rightarrow> nat \<Rightarrow> state \<Rightarrow> exn option \<times> state" where
  "runFrame e h s =
     (if h \<in> set (pendingFrames s) then draw e (cancelAnimationFrame h s) else (None, s))"

definition drawPlaceholder :: "notice \<Rightarrow> state \<Rightarrow> state" where
  "drawPlaceholder text s =
     (case (ctx s, canvas s) of
        (Some calls, Some cv) \<Rightarrow>
          s\<lparr>ctx := Some (calls @ renderBackground s (width cv) (height cv)
                          @ [SetFillStyle (Plain (Css ''#666'')), SetFont ''14px Arial'',
                             SetTextAlign ''center'', SetTextBaseline ''middle'',
                             FillText text (Finite (real (width cv) / 2))
                                           (Finite (real (height cv) / 2))])\<rparr>
      | _ \<Rightarrow> s)"

subsection \<open>Teardown\<close>

text \<open>
  \<^verbatim>\<open>cleanup\<close>. An official node only forgets its element; a custom node pauses the
  element it holds and empties its \<^verbatim>\<open>src\<close>. What the browser does to an element whose
  \<^verbatim>\<open>src\<close> was emptied is not modelled.
\<close>

definition disconnect :: "media_source \<Rightarrow> state \<Rightarrow> state" where
  "disconnect m s = s\<lparr>wired := (wired s)(src_id m := None)\<rparr>"

definition closeContext :: "state \<Rightarrow> state" where
  "closeContext s =
     (case audioContext s of
        None \<Rightarrow> s
      | Some c \<Rightarrow>
          if c \<notin> closedContexts s then s\<lparr>closedContexts := insert c (closedContexts s)\<rparr> else s)"

text \<open>The three releases of \<^verbatim>\<open>cleanup\<close>: the source node, the audio context, the element.\<close>

definition dropSource :: "state \<Rightarrow> state" where
  "dropSource s =
     (case source s of
        Some m \<Rightarrow> (disconnect m s)\<lparr>source := None\<rparr>
      | None \<Rightarrow> s)"

definition dropContext :: "state \<Rightarrow> state" where
  "dropContext s =
     (case audioContext s of
        None \<Rightarrow> s
      | Some c \<Rightarrow>
          if c \<notin> closedContexts s then (closeContext s)\<lparr>audioContext := None\<rparr> else s)"

definition dropElement :: "state \<Rightarrow> state" where
  "dropElement s =
     (if isOfficialNode s then s\<lparr>audioElement := None\<rparr>
      else (case audioElement s of
              Some el \<Rightarrow>
                s\<lparr>elements := (elements s)(el := (elements s el)\<lparr>paused := True, src := []\<rparr>),
                  audioElement := None\<rparr>
            | None \<Rightarrow> s))"

definition cleanup :: "state \<Rightarrow> state" where
  "cleanup s =
     dropElement
       ((dropContext (dropSource (stopVisualization s)))\<lparr>analyser := None,
                                                          isInitialized := False\<rparr>)"

definition destroy :: "state \<Rightarrow> state" where
  "destroy s = cleanup s"

subsection \<open>Attaching to an audio element\<close>

text \<open>
  The audio graph. The browser makes at most one \<^verbatim>\<open>MediaElementSource\<close> for an element:
  the first request gives a node of the requesting context, every later request throws.
  \<^verbatim>\<open>connect\<close> throws when the two nodes belong to different contexts. A throwing call is
  \<open>None\<close>, next to the state it leaves.
\<close>

definition createMediaElementSource ::
  "el_id \<Rightarrow> nat \<Rightarrow> state \<Rightarrow> media_source option \<times> state"
where
  "createMediaElementSource el c s =
     (let a = elements s el;
          s1 = s\<lparr>elements := (elements s)(el := a\<lparr>requested := requested a + 1\<rparr>)\<rparr>
      in if requested a = 0
         then (Some \<lparr>src_id = nextId s, src_context = c\<rparr>, s1\<lparr>nextId := nextId s + 1\<rparr>)
         else (None, s1))"

definition connect :: "media_source \<Rightarrow> analyser \<Rightarrow> state \<Rightarrow> state option" where
  "connect m an s =
     (if src_context m = an_context an
      then Some (s\<lparr>wired := (wired s)(src_id m \<mapsto> an_context an)\<rparr>)
      else None)"

text \<open>
  The two branches of the inner \<^verbatim>\<open>try\<close> of \<^verbatim>\<open>initContext\<close> and its \<^verbatim>\<open>catch\<close>. The
  boolean tells whether control goes on to \<^verbatim>\<open>isInitialized = true\<close>.
\<close>

definition reuseSource :: "media_source \<Rightarrow> analyser \<Rightarrow> state \<Rightarrow> bool \<times> state" where
  "reuseSource m an s =
     (let s1 = disconnect m (s\<lparr>source := Some m\<rparr>)
      in case connect m an s1 of
           Some s2 \<Rightarrow> (True, s2)
         | None \<Rightarrow> (False, s1))"

definition spliceSource :: "el_id \<Rightarrow> analyser \<Rightarrow> state \<Rightarrow> bool \<times> state" where
  "spliceSource el an s =
     (case marker (elements s el) of
        None \<Rightarrow>
          (case createMediaElementSource el (an_context an) s of
             (None, s1) \<Rightarrow> (False, s1)
           | (Some m, s1) \<Rightarrow>
               (let s2 = s1\<lparr>source := Some m\<rparr>;
                    s3 = s2\<lparr>elements := (elements s2)(el := (elements s2 el)\<lparr>marker := Some m\<rparr>)\<rparr>
                in case connect m an s3 of
                     Some s4 \<Rightarrow> (True, s4)
                   | None \<Rightarrow> (False, s3)))
      | Some m \<Rightarrow> reuseSource m an s)"

definition spliceRecover :: "el_id \<Rightarrow> analyser \<Rightarrow> state \<Rightarrow> bool \<times> state" where
  "spliceRecover el an s =
     (case marker (elements s el) of
        Some m \<Rightarrow>
          (case reuseSource m an s of
             (True, s1) \<Rightarrow> (True, s1)
           | (False, s1) \<Rightarrow> (False, drawPlaceholder CannotConnect s1))
      | None \<Rightarrow> (False, drawPlaceholder CannotConnectError s))"

definition trySplice :: "el_id \<Rightarrow> analyser \<Rightarrow> state \<Rightarrow> bool \<times> state" where
  "trySplice el an s =
     (case spliceSource el an s of
        (True, s') \<Rightarrow> (True, s')
      | (False, s') \<Rightarrow> spliceRecover el an s')"

text \<open>
  The end of \<^verbatim>\<open>initContext\<close>, after the inner \<^verbatim>\<open>try\<close>: the visualizer is initialized,
  and the loop starts when the element is playing. This is still inside the outer \<^verbatim>\<open>try\<close>,
  whose \<^verbatim>\<open>catch\<close> answers an exception of the first frame with the notice that the
  browser does not support the analysis.
\<close>

definition finishInit :: "env \<Rightarrow> el_id \<Rightarrow> bool \<times> state \<Rightarrow> state" where
  "finishInit e el r =
     (case r of (ok, s) \<Rightarrow>
        if \<not> ok then s
        else
          (let s1 = s\<lparr>isInitialized := True\<rparr>
           in if \<not> paused (elements s1 el)
              then (case startVisualization e s1 of
                      (None, s2) \<Rightarrow> s2
                    | (Some x, s2) \<Rightarrow> drawPlaceholder Unsupported s2)
              else s1))"

text \<open>
  \<^verbatim>\<open>initContext\<close>, the closure of \<^verbatim>\<open>connectToAudioElement\<close> over the element. The outer
  \<^verbatim>\<open>catch\<close> receives the failure to build an \<^verbatim>\<open>AudioContext\<close> and the analyser's
  refusal of an FFT size. A fresh analyser has the FFT size 2048 and the smoothing 0.8;
  \<^verbatim>\<open>resume()\<close> changes nothing that is modelled.
\<close>

definition freshAnalyser :: "nat \<Rightarrow> analyser" where
  "freshAnalyser c = \<lparr>an_context = c, an_fftSize = 2048, smoothingTimeConstant = 8 / 10\<rparr>"

definition initContext :: "env \<Rightarrow> el_id \<Rightarrow> state \<Rightarrow> state" where
  "initContext e el s =
     (let s1 = closeContext s
      in if \<not> audioSupported e then drawPlaceholder Unsupported s1
         else
           (let c = nextId s1;
                s2 = s1\<lparr>audioContext := Some c, nextId := c + 1,
                        analyser := Some (freshAnalyser c)\<rparr>
            in if \<not> accepted_fftSize (fftSize (config s2)) then drawPlaceholder Unsupported s2
               else
                 (let an = (freshAnalyser c)\<lparr>an_fftSize := fftSize (config s2),
                                              smoothingTimeConstant := 85 / 100\<rparr>
                  in finishInit e el (trySplice el an (s2\<lparr>analyser := Some an\<rparr>)))))"

text \<open>
  \<^verbatim>\<open>connectToAudioElement\<close>. An element that has not loaded yet gets a one-time
  \<^verbatim>\<open>loadeddata\<close> listener and, when it is already playing, a timeout as well; both run
  \<^verbatim>\<open>initContext\<close> later.
\<close>

definition running :: "state \<Rightarrow> bool" where
  "running s = (case animationFrameId s of None \<Rightarrow> False | Some h \<Rightarrow> h \<noteq> 0)"

definition connectToAudioElement :: "env \<Rightarrow> el_id option \<Rightarrow> state \<Rightarrow> exn option \<times> state" where
  "connectToAudioElement e target s =
     (if \<not> visualizerEnabled s then (None, s)
      else case target of
        None \<Rightarrow> (None, s)
      | Some el \<Rightarrow>
          if audioElement s = Some el \<and> isInitialized s
          then (if \<not> running s then startVisualization e s else (None, s))
          else
            (let s1 = (if audioElement s \<noteq> Some el then cleanup s else s);
                 s2 = s1\<lparr>audioElement := Some el\<rparr>
             in if readyState (elements s2 el) \<ge> 2 then (None, initContext e el s2)
                else
                  (let s3 = s2\<lparr>loadedListeners := loadedListeners s2 @ [el]\<rparr>
                   in if \<not> paused (elements s3 el)
                      then (None, s3\<lparr>timers := timers s3 @ [el]\<rparr>)
                      else (None, s3))))"

definition onLoadedData :: "env \<Rightarrow> el_id \<Rightarrow> state \<Rightarrow> state" where
  "onLoadedData e el s =
     (if el \<in> set (loadedListeners s)
      then initContext e el (s\<lparr>loadedListeners := remove1 el (loadedListeners s)\<rparr>)
      else s)"

definition onTimeout :: "env \<Rightarrow> el_id \<Rightarrow> state \<Rightarrow> state" where
  "onTimeout e el s =
     (if el \<in> set (timers s)
      then (let s1 = s\<lparr>timers := remove1 el (timers s)\<rparr>
            in if \<not> isInitialized s1 \<and> readyState (elements s1 el) \<ge> 1
               then initContext e el s1 else s1)
      else s)"

subsection \<open>The other entry points\<close>

definition setMode :: "env \<Rightarrow> string \<Rightarrow> state \<Rightarrow> exn option \<times> state" where
  "setMode e m s =
     (if mode (config s) = m then (None, s)
      else
        (let s1 = s\<lparr>config := (config s)\<lparr>mode := m\<rparr>\<rparr>;
             s2 = (if isOfficialNode s1 then s1\<lparr>prop_mode := Some m\<rparr> else s1)
         in if isInitialized s2 then startVisualization e s2 else (None, s2)))"

definition setEnabled :: "env \<Rightarrow> bool \<Rightarrow> state \<Rightarrow> exn option \<times> state" where
  "setEnabled e enabled s =
     (let s1 = s\<lparr>visualizerEnabled := enabled\<rparr>;
          s2 = (if isOfficialNode s1 then s1\<lparr>prop_enabled := Some (visualizerEnabled s1)\<rparr>
                else s1)
      in if \<not> visualizerEnabled s2 then (None, cleanup s2)
         else if isOfficialNode s2
         then (case audioUI s2 of
                 Some el \<Rightarrow>
                   if \<not> paused (elements s2 el) then connectToAudioElement e (Some el) s2
                   else (None, s2)
               | None \<Rightarrow> (None, s2))
         else (None, s2))"

text \<open>
  The listeners \<^verbatim>\<open>setupOfficialAudioUI\<close> puts on the player of an official node:
  \<^verbatim>\<open>play\<close> attaches, \<^verbatim>\<open>pause\<close> and \<^verbatim>\<open>ended\<close> stop the loop.
\<close>

definition onPlay :: "env \<Rightarrow> state \<Rightarrow> exn option \<times> state" where
  "onPlay e s =
     (if \<not> isOfficialNode s \<or> \<not> visualizerEnabled s then (None, s)
      else case audioUI s of
             Some el \<Rightarrow> connectToAudioElement e (Some el) s
           | None \<Rightarrow> (None, s))"

definition onStop :: "state \<Rightarrow> state" where
  "onStop s =
     (if \<not> isOfficialNode s \<or> \<not> visualizerEnabled s \<or> audioUI s = None then s
      else stopVisualization s)"

text \<open>
  \<^verbatim>\<open>loadAudio\<close> makes an element of its own when the node has no player; the element's
  \<^verbatim>\<open>onloadeddata\<close> is a later call of \<^verbatim>\<open>connectToAudioElement\<close>. \<^verbatim>\<open>handleAudioChange\<close>
  polls the player until it has a \<^verbatim>\<open>src\<close>; a poll that finds none leaves the state as
  it is, and the next poll is a later call of \<^verbatim>\<open>handleAudioChange\<close>'s inner function.
\<close>

definition newAudio :: "string \<Rightarrow> audio_el" where
  "newAudio url =
     \<lparr>paused = True, readyState = 0, src = url, currentTime = 0, marker = None, requested = 0\<rparr>"

definition loadAudio :: "env \<Rightarrow> string \<Rightarrow> state \<Rightarrow> exn option \<times> state" where
  "loadAudio e audioUrl s =
     (if isOfficialNode s then (None, s)
      else
        (let s1 = cleanup s
         in case audioUI s1 of
              Some el \<Rightarrow> connectToAudioElement e (Some el) s1
            | None \<Rightarrow>
                (let audio = Created (nextId s1)
                 in (None,
                     s1\<lparr>elements := (elements s1)(audio := newAudio audioUrl),
                        nextId := nextId s1 + 1,
                        audioElement := Some audio\<rparr>))))"

definition checkSrc :: "env \<Rightarrow> el_id \<Rightarrow> state \<Rightarrow> exn option \<times> state" where
  "checkSrc e el s =
     (if src (elements s el) \<noteq> [] then connectToAudioElement e (Some el) s else (None, s))"

definition handleAudioChange :: "env \<Rightarrow> string \<Rightarrow> state \<Rightarrow> exn option \<times> state" where
  "handleAudioChange e audioValue s =
     (if audioValue = [] then (None, drawPlaceholder LoadPrompt (cleanup s))
      else case audioUI s of
             Some el \<Rightarrow> checkSrc e el s
           | None \<Rightarrow>
               (case getAudioUrl (encodeURIComponent e) (randParam e) (apiURL e) audioValue of
                  None \<Rightarrow> (None, drawPlaceholder CannotLoadFile s)
                | Some audioUrl \<Rightarrow> loadAudio e audioUrl s))"

text \<open>
  The player and the user act on an element from outside: they may change everything but
  the marker and the count of requests, which only the visualizer touches.
\<close>

definition playerSets :: "el_id \<Rightarrow> bool \<Rightarrow> nat \<Rightarrow> string \<Rightarrow> real \<Rightarrow> state \<Rightarrow> state" where
  "playerSets el p r u t s =
     s\<lparr>elements := (elements s)(el := (elements s el)\<lparr>paused := p, readyState := r,
                                                        src := u, currentTime := t\<rparr>)\<rparr>"

text \<open>
  The remaining setters: the background image (already decoded and scaled to a canvas,
  whose sides \<^verbatim>\<open>createImageCanvasFromDataUrl\<close> makes at least one pixel long), the FFT size
  of a custom node (the analyser refuses a size it does not accept, after the
  configuration took it), and the resize of the node.
\<close>

definition setBackgroundImage :: "image option \<Rightarrow> state \<Rightarrow> state" where
  "setBackgroundImage img s = s\<lparr>backgroundImageCanvas := img\<rparr>"

definition setFftSize :: "nat \<Rightarrow> state \<Rightarrow> state" where
  "setFftSize n s =
     (let s1 = s\<lparr>config := (config s)\<lparr>fftSize := n\<rparr>\<rparr>
      in case analyser s1 of
           Some an \<Rightarrow> if accepted_fftSize n then s1\<lparr>analyser := Some (an\<lparr>an_fftSize := n\<rparr>)\<rparr> else s1
         | None \<Rightarrow> s1)"

definition onResize :: "env \<Rightarrow> state \<Rightarrow> state" where
  "onResize e s =
     (case canvas s of
        None \<Rightarrow> s
      | Some cv \<Rightarrow>
          if rect_width e > 0 \<and> rect_height e > 0
          then s\<lparr>canvas := Some
                   (cv\<lparr>width := nat \<lfloor>max 400 (rect_width e - (if isOfficialNode s then 30 else 20))\<rfloor>,
                       height := nat \<lfloor>max 200 (if isOfficialNode s then rect_height e - 30
                                                else min 300 (rect_height e * (3 / 10)))\<rfloor>\<rparr>)\<rparr>
          else s)"

subsection \<open>Construction\<close>

text \<open>
  The constructor, for a node with the given saved properties, player and audio elements,
  and \<^verbatim>\<open>createCanvasWidget\<close>, which makes the canvas of 800 by 200 and draws the prompt.
\<close>

definition newVisualizer ::
  "bool \<Rightarrow> string option \<Rightarrow> jsnum option \<Rightarrow> bool option \<Rightarrow> el_id option
   \<Rightarrow> (el_id \<Rightarrow> audio_el) \<Rightarrow> state"
where
  "newVisualizer official savedMode savedOpacity savedEnabled player els =
     \<lparr>canvas = None, ctx = None, audioContext = None, analyser = None, audioElement = None,
      source = None, animationFrameId = None, isInitialized = False,
      isOfficialNode = official,
      config = \<lparr>mode = (if official
                         then (case savedMode of
                                 Some m \<Rightarrow> if m \<noteq> [] then m else BARS
                               | None \<Rightarrow> BARS)
                         else WAVE),
                 fftSize = 2048,
                 primaryColor = ''#8b5cf6'',
                 secondaryColor = ''#3b82f6'',
                 backgroundColor = ''#09090b''\<rparr>,
      backgroundOpacity = (if official
                           then (case savedOpacity of Some x \<Rightarrow> x | None \<Rightarrow> Finite (2 / 10))
                           else Finite 0),
      backgroundImageCanvas = None,
      visualizerEnabled = (case savedEnabled of Some b \<Rightarrow> b | None \<Rightarrow> True),
      prop_mode = savedMode, prop_opacity = savedOpacity, prop_enabled = savedEnabled,
      audioUI = player, elements = els, closedContexts = {}, wired = (\<lambda>_. None), nextId = 0,
      pendingFrames = [], lastFrame = 0, loadedListeners = [], timers = []\<rparr>"

definition createCanvasWidget :: "state \<Rightarrow> state" where
  "createCanvasWidget s =
     (if canvas s \<noteq> None then s
      else drawPlaceholder LoadPrompt
             (s\<lparr>canvas := Some \<lparr>width = 800, height = 200\<rparr>, ctx := Some []\<rparr>))"

text \<open>
  Nodes and a frame to try the definitions on: an official and a custom node, fresh, with
  their canvas and a player that has loaded nothing; an analyser as \<^verbatim>\<open>initContext\<close> sets
  it up for the default FFT size; the official node after a background image was set; and
  the environment of a frame in which the box on screen is 800 by 200
  and every sample is zero.
\<close>

definition official_node :: state where
  "official_node =
     createCanvasWidget
       (newVisualizer True None None None (Some (Widget 0)) (\<lambda>_. newAudio []))"

definition custom_node :: state where
  "custom_node =
     createCanvasWidget
       (newVisualizer False None None None (Some (Widget 0)) (\<lambda>_. newAudio []))"

definition analyser_2048 :: analyser where
  "analyser_2048 = \<lparr>an_context = 0, an_fftSize = 2048, smoothingTimeConstant = 85 / 100\<rparr>"

definition with_image :: state where
  "with_image = setBackgroundImage (Some (Image 512 256)) official_node"

definition zero_frame :: env where
  "zero_frame =
     \<lparr>rect_width = 800, rect_height = 200, timeDomain = (\<lambda>_. 0), frequency = (\<lambda>_. 0),
      audioSupported = True, encodeURIComponent = Some, randParam = ''t=0'', apiURL = None\<rparr>"

text \<open>
  The official node once its player has loaded a file and plays, and once the visualizer
  has attached to it; the official node attached to its player before anything has loaded;
  and a frame in which the box on screen is half a pixel wide.
\<close>

definition loaded_node :: state where
  "loaded_node = playerSets (Widget 0) False 4 ''a.wav'' 0 official_node"

definition playing_node :: state where
  "playing_node = snd (connectToAudioElement zero_frame (Some (Widget 0)) loaded_node)"

definition waiting_node :: state where
  "waiting_node = snd (connectToAudioElement zero_frame (Some (Widget 0)) official_node)"

definition narrow_frame :: env where
  "narrow_frame = zero_frame\<lparr>rect_width := 1 / 2\<rparr>"

text \<open>
  The playing node after the circular mode was chosen, and a frame in which the box on
  screen is 30 wide.
\<close>

definition circular_node :: state where
  "circular_node = snd (setMode zero_frame CIRCULAR playing_node)"

definition small_frame :: env where
  "small_frame = zero_frame\<lparr>rect_width := 30\<rparr>"

text \<open>
  A frame of true silence, every sample of the time domain at 128, and a frame in which
  the box on screen has no width.
\<close>

definition silent_frame :: env where
  "silent_frame = zero_frame\<lparr>timeDomain := (\<lambda>_. 128)\<rparr>"

definition hidden_frame :: env where
  "hidden_frame = zero_frame\<lparr>rect_width := 0\<rparr>"

text \<open>
  A custom node whose element has loaded a file and plays, once the visualizer has
  attached to it.
\<close>

definition custom_playing :: state where
  "custom_playing =
     snd (connectToAudioElement zero_frame (Some (Widget 0))
            (playerSets (Widget 0) False 4 ''a.wav'' 0 custom_node))"

subsection \<open>The states a visualizer goes through\<close>

text \<open>
  A visualizer starts as its constructor leaves it: nothing attached, no loop, no callback
  waiting; the canvas may already be there. Every element it may meet has a marker exactly
  when its source node was requested, once. From there the state moves by the entry points
  above, the frames and callbacks the browser runs, and what the player does. An entry
  point that throws leaves the state as it was when the exception came.
\<close>

definition spliced_once :: "audio_el \<Rightarrow> bool" where
  "spliced_once a = (requested a \<le> 1 \<and> ((marker a = None) = (requested a = 0)))"

definition spliced_ok :: "state \<Rightarrow> bool" where
  "spliced_ok s = (\<forall>el. spliced_once (elements s el))"

definition constructed :: "state \<Rightarrow> bool" where
  "constructed s =
     (audioContext s = None \<and> analyser s = None \<and> audioElement s = None \<and> source s = None
      \<and> animationFrameId s = None \<and> \<not> isInitialized s
      \<and> pendingFrames s = [] \<and> loadedListeners s = [] \<and> timers s = []
      \<and> (\<forall>el. spliced_once (elements s el)))"

inductive reachable :: "state \<Rightarrow> bool" where
  r_new: "constructed s \<Longrightarrow> reachable s"
| r_connect: "reachable s \<Longrightarrow> reachable (snd (connectToAudioElement e target s))"
| r_loaded: "reachable s \<Longrightarrow> reachable (onLoadedData e el s)"
| r_timeout: "reachable s \<Longrightarrow> reachable (onTimeout e el s)"
| r_start: "reachable s \<Longrightarrow> reachable (snd (startVisualization e s))"
| r_stop: "reachable s \<Longrightarrow> reachable (stopVisualization s)"
| r_frame: "reachable s \<Longrightarrow> reachable (snd (runFrame e h s))"
| r_cleanup: "reachable s \<Longrightarrow> reachable (cleanup s)"
| r_mode: "reachable s \<Longrightarrow> reachable (snd (setMode e m s))"
| r_enabled: "reachable s \<Longrightarrow> reachable (snd (setEnabled e b s))"
| r_opacity: "reachable s \<Longrightarrow> reachable (setBackgroundOpacity v s)"
| r_play: "reachable s \<Longrightarrow> reachable (snd (onPlay e s))"
| r_pause: "reachable s \<Longrightarrow> reachable (onStop s)"
| r_load: "reachable s \<Longrightarrow> reachable (snd (loadAudio e url s))"
| r_change: "reachable s \<Longrightarrow> reachable (snd (handleAudioChange e v s))"
| r_notice: "reachable s \<Longrightarrow> reachable (drawPlaceholder text s)"
| r_player: "reachable s \<Longrightarrow> reachable (playerSets el p r u t s)"
| r_image: "reachable s \<Longrightarrow> reachable (setBackgroundImage img s)"
| r_fft: "reachable s \<Longrightarrow> reachable (setFftSize n s)"
| r_resize: "reachable s \<Longrightarrow> reachable (onResize e s)"

subsection \<open>The invariant of the render loop\<close>

text \<open>
  What the loop depends on, and when this is in order: no request is pending, or exactly
  one is, the visualizer holds its handle, the handle is one the browser has handed out,
  and the visualizer is initialized with an analyser and a context to draw on.
\<close>

definition loop_view :: "state \<Rightarrow> nat list \<times> nat option \<times> nat \<times> bool \<times> bool \<times> bool" where
  "loop_view s =
     (pendingFrames s, animationFrameId s, lastFrame s, isInitialized s,
      analyser s \<noteq> None, ctx s \<noteq> None)"

definition loop_ok :: "nat list \<times> nat option \<times> nat \<times> bool \<times> bool \<times> bool \<Rightarrow> bool" where
  "loop_ok v =
     (case v of (pending, frameId, newest, initialized, listening, painting) \<Rightarrow>
        (case pending of
           [] \<Rightarrow> True
         | [h] \<Rightarrow> frameId = Some h \<and> 0 < h \<and> h \<le> newest \<and> initialized \<and> listening \<and> painting
         | _ \<Rightarrow> False))"

definition one_loop :: "state \<Rightarrow> bool" where
  "one_loop s = loop_ok (loop_view s)"

subsection \<open>Reading the calls of a frame\<close>

text \<open>
  Two views of a list of canvas calls: the vertical coordinates of the points of its paths,
  and the heights of the rectangles it fills.
\<close>

fun plotted_ys :: "canvas_op list \<Rightarrow> jsnum list" where
  "plotted_ys [] = []"
| "plotted_ys (MoveTo x y # ops) = y # plotted_ys ops"
| "plotted_ys (LineTo x y # ops) = y # plotted_ys ops"
| "plotted_ys (_ # ops) = plotted_ys ops"

fun bar_heights :: "canvas_op list \<Rightarrow> jsnum list" where
  "bar_heights [] = []"
| "bar_heights (FillRect x y w h # ops) = h # bar_heights ops"
| "bar_heights (_ # ops) = bar_heights ops"

section \<open>Properties\<close>

text \<open>The loops of the renderers are unfolded by hand, one turn at a time.\<close>

declare drawWave_main.simps [simp del]
declare drawWave_aux.simps [simp del]
declare drawBars_loop.simps [simp del]


subsection \<open>Splitting at the last slash\<close>

lemma lastIndexOf_range: "- 1 \<le> lastIndexOf s c \<and> lastIndexOf s c < int (length s)"
  by (induction s) (auto simp: Let_def)

lemma lastIndexOf_none: "(lastIndexOf s c = - 1) = (c \<notin> set s)"
proof (induction s)
  case Nil
  show ?case by simp
next
  case (Cons x xs)
  have "- 1 \<le> lastIndexOf xs c" by (simp add: lastIndexOf_range)
  with Cons show ?case by (auto simp: Let_def)
qed

lemma lastIndexOf_split:
  assumes "c \<in> set s"
  shows "take (nat (lastIndexOf s c)) s @ c # drop (nat (lastIndexOf s c + 1)) s = s
         \<and> c \<notin> set (drop (nat (lastIndexOf s c + 1)) s)"
  using assms
proof (induction s)
  case Nil
  then show ?case by simp
next
  case (Cons x xs)
  show ?case
  proof (cases "c \<in> set xs")
    case True
    then have "0 \<le> lastIndexOf xs c"
      using lastIndexOf_none [of xs c] lastIndexOf_range [of xs c] by linarith
    then obtain n where n: "lastIndexOf xs c = int n"
      using nonneg_int_cases by blast
    then have l: "lastIndexOf (x # xs) c = int n + 1" by (simp add: Let_def)
    have a: "nat (lastIndexOf xs c) = n" "nat (lastIndexOf xs c + 1) = Suc n"
      by (simp_all add: n)
    have b: "nat (lastIndexOf (x # xs) c) = Suc n"
      "nat (lastIndexOf (x # xs) c + 1) = Suc (Suc n)"
      unfolding l by simp_all
    from Cons.IH [OF True] show ?thesis
      unfolding a b by simp
  next
    case False
    then have "lastIndexOf xs c = - 1" by (simp add: lastIndexOf_none)
    moreover from False Cons.prems have "x = c" by simp
    ultimately show ?thesis using False by (simp add: Let_def)
  qed
qed

lemma substring_prefix:
  "0 \<le> k \<Longrightarrow> k \<le> int (length s) \<Longrightarrow> substring s 0 k = take (nat k) s"
  by (simp add: substring_def Let_def min_def max_def)

lemma substring_from_suffix:
  "0 \<le> k \<Longrightarrow> k \<le> int (length s) \<Longrightarrow> substring_from s k = drop (nat k) s"
  by (simp add: substring_from_def substring_def Let_def min_def max_def nat_diff_distrib)

text \<open>
  C10. \<^verbatim>\<open>getAudioUrl\<close> splits a non-empty identifier at its last slash: when the
  identifier holds a slash, subfolder, slash and filename put together give the identifier
  back and the filename holds no slash (so the cut is at the last one); when it holds no
  slash, the filename is the whole identifier and the subfolder is empty.
\<close>

theorem getAudioUrl_splits_at_last_slash:
  assumes "audioValue \<noteq> []"
  shows "(CHR ''/'' \<in> set audioValue \<longrightarrow>
            snd (parseAudioValue audioValue) @ ''/'' @ fst (parseAudioValue audioValue) = audioValue
            \<and> CHR ''/'' \<notin> set (fst (parseAudioValue audioValue)))
       \<and> (CHR ''/'' \<notin> set audioValue \<longrightarrow>
            fst (parseAudioValue audioValue) = audioValue
            \<and> snd (parseAudioValue audioValue) = [])"
proof (cases "CHR ''/'' \<in> set audioValue")
  case True
  let ?k = "lastIndexOf audioValue (CHR ''/'')"
  have rng: "- 1 \<le> ?k \<and> ?k < int (length audioValue)" by (rule lastIndexOf_range)
  from True have ne: "?k \<noteq> - 1" by (simp add: lastIndexOf_none)
  with rng have k0: "0 \<le> ?k" by linarith
  from rng have k1: "?k + 1 \<le> int (length audioValue)" by linarith
  have sub: "substring audioValue 0 ?k = take (nat ?k) audioValue"
    using k0 rng by (simp add: substring_prefix)
  have fil: "substring_from audioValue (?k + 1) = drop (nat (?k + 1)) audioValue"
    using k0 k1 by (simp add: substring_from_suffix)
  from lastIndexOf_split [OF True] ne sub fil True show ?thesis
    by (simp add: parseAudioValue_def Let_def)
next
  case False
  then have "lastIndexOf audioValue (CHR ''/'') = - 1" by (simp add: lastIndexOf_none)
  with False show ?thesis by (simp add: parseAudioValue_def Let_def)
qed

theorem getAudioUrl_splits_at_last_slash_witness:
  "''in/sub/a.wav'' \<noteq> []
   \<and> CHR ''/'' \<in> set ''in/sub/a.wav''
   \<and> parseAudioValue ''in/sub/a.wav'' = (''a.wav'', ''in/sub'')
   \<and> snd (parseAudioValue ''in/sub/a.wav'') @ ''/'' @ fst (parseAudioValue ''in/sub/a.wav'')
       = ''in/sub/a.wav''
   \<and> CHR ''/'' \<notin> set ''a.wav''
   \<and> CHR ''/'' \<notin> set ''a.wav''
   \<and> parseAudioValue ''a.wav'' = (''a.wav'', [])"
proof -
  have ne: "''in/sub/a.wav'' \<noteq> []" by simp
  have p: "parseAudioValue ''in/sub/a.wav'' = (''a.wav'', ''in/sub'')"
    by (simp add: parseAudioValue_def substring_def substring_from_def Let_def)
  have q: "parseAudioValue ''a.wav'' = (''a.wav'', [])"
    by (simp add: parseAudioValue_def Let_def)
  from getAudioUrl_splits_at_last_slash [OF ne] p q show ?thesis by simp
qed

subsection \<open>The stored background opacity\<close>

lemma clampOpacity_eq:
  "clampOpacity v =
     (if \<not> truthy v then Finite 0
      else case ToNumber v of
             Finite x \<Rightarrow> Finite (max 0 (min (1 / 2) x))
           | PosInf \<Rightarrow> Finite (1 / 2)
           | NegInf \<Rightarrow> Finite 0
           | NaN \<Rightarrow> NaN)"
  by (cases "ToNumber v") (auto simp: clampOpacity_def js_or_def Math_min_def Math_max_def)

lemma stored_opacity: "backgroundOpacity (setBackgroundOpacity v s) = clampOpacity v"
  by (simp add: setBackgroundOpacity_def Let_def)

lemma text_is_no_number: "StringToNumber ''abc'' = NaN"
  by (simp add: StringToNumber_def trim_def is_space_def unsigned_decimal_def is_digit_def)

lemma official_node_is_official: "isOfficialNode official_node"
  by (simp add: official_node_def createCanvasWidget_def newVisualizer_def drawPlaceholder_def)

text \<open>
  C4, as stated, fails: \<^verbatim>\<open>value || 0\<close> only replaces a falsy value, so a text that is
  not a number, such as \<^verbatim>\<open>"abc"\<close>, reaches \<^verbatim>\<open>Math.min\<close> and \<^verbatim>\<open>NaN\<close> is stored.
\<close>

theorem setBackgroundOpacity_text_counterexample:
  "backgroundOpacity (setBackgroundOpacity (JSString ''abc'') official_node) = NaN"
  by (simp add: stored_opacity clampOpacity_eq text_is_no_number)

text \<open>
  C4, amended. For every input that is falsy or converts to a number (every number,
  \<^verbatim>\<open>NaN\<close> and the infinities included, \<^verbatim>\<open>undefined\<close>, \<^verbatim>\<open>null\<close>, a boolean, a
  numeric text), \<^verbatim>\<open>setBackgroundOpacity\<close> stores a value of the interval from 0 to 0.5,
  in the object and for an official node in the node's properties: a number above 0.5
  stores 0.5, a negative number stores 0, a number in between is stored as it is, and
  \<^verbatim>\<open>NaN\<close>, \<^verbatim>\<open>undefined\<close> and \<^verbatim>\<open>null\<close> store 0.
\<close>

theorem setBackgroundOpacity_clamps:
  assumes "truthy v \<longrightarrow> ToNumber v \<noteq> NaN"
  shows "(\<exists>r. backgroundOpacity (setBackgroundOpacity v s) = Finite r \<and> 0 \<le> r \<and> r \<le> 1 / 2)
       \<and> (isOfficialNode s \<longrightarrow>
            prop_opacity (setBackgroundOpacity v s)
              = Some (backgroundOpacity (setBackgroundOpacity v s)))
       \<and> (1 / 2 < x \<longrightarrow>
            backgroundOpacity (setBackgroundOpacity (JSNumber (Finite x)) s) = Finite (1 / 2))
       \<and> (x < 0 \<longrightarrow>
            backgroundOpacity (setBackgroundOpacity (JSNumber (Finite x)) s) = Finite 0)
       \<and> (0 \<le> x \<and> x \<le> 1 / 2 \<longrightarrow>
            backgroundOpacity (setBackgroundOpacity (JSNumber (Finite x)) s) = Finite x)
       \<and> backgroundOpacity (setBackgroundOpacity (JSNumber PosInf) s) = Finite (1 / 2)
       \<and> backgroundOpacity (setBackgroundOpacity (JSNumber NegInf) s) = Finite 0
       \<and> backgroundOpacity (setBackgroundOpacity (JSNumber NaN) s) = Finite 0
       \<and> backgroundOpacity (setBackgroundOpacity JSUndefined s) = Finite 0
       \<and> backgroundOpacity (setBackgroundOpacity JSNull s) = Finite 0"
proof -
  have range: "\<exists>r. clampOpacity v = Finite r \<and> 0 \<le> r \<and> r \<le> 1 / 2"
  proof (cases "truthy v")
    case False
    then show ?thesis by (simp add: clampOpacity_eq)
  next
    case True
    with assms have nn: "ToNumber v \<noteq> NaN" by simp
    let ?r = "case ToNumber v of Finite x \<Rightarrow> max 0 (min (1 / 2) x) | PosInf \<Rightarrow> 1 / 2 | _ \<Rightarrow> 0"
    from True nn have "clampOpacity v = Finite ?r"
      by (cases "ToNumber v") (simp_all add: clampOpacity_eq)
    moreover have "0 \<le> ?r \<and> ?r \<le> 1 / 2"
      by (cases "ToNumber v") simp_all
    ultimately show ?thesis by blast
  qed
  have saved: "isOfficialNode s \<longrightarrow>
      prop_opacity (setBackgroundOpacity v s) = Some (backgroundOpacity (setBackgroundOpacity v s))"
    by (simp add: setBackgroundOpacity_def Let_def)
  show ?thesis
    using range saved by (simp add: stored_opacity) (simp add: clampOpacity_eq)
qed

theorem setBackgroundOpacity_clamps_witness:
  "ToNumber (JSNumber (Finite (9 / 10))) \<noteq> NaN
   \<and> backgroundOpacity (setBackgroundOpacity (JSNumber (Finite (9 / 10))) official_node)
       = Finite (1 / 2)
   \<and> prop_opacity (setBackgroundOpacity (JSNumber (Finite (9 / 10))) official_node)
       = Some (Finite (1 / 2))
   \<and> backgroundOpacity (setBackgroundOpacity (JSNumber (Finite (- 1))) official_node) = Finite 0
   \<and> backgroundOpacity (setBackgroundOpacity (JSNumber (Finite (3 / 10))) official_node)
       = Finite (3 / 10)"
proof -
  have h: "truthy (JSNumber (Finite (9 / 10))) \<longrightarrow> ToNumber (JSNumber (Finite (9 / 10))) \<noteq> NaN"
    by simp
  from setBackgroundOpacity_clamps [OF h, of official_node "9 / 10"]
       setBackgroundOpacity_clamps [OF h, of official_node "- 1"]
       setBackgroundOpacity_clamps [OF h, of official_node "3 / 10"]
       official_node_is_official
  show ?thesis by simp
qed

subsection \<open>The image overlay of the background\<close>

lemma with_image_fields:
  "backgroundImageCanvas with_image = Some (Image 512 256)"
  "backgroundOpacity with_image = Finite (2 / 10)"
  "backgroundColor (config with_image) = ''#09090b''"
  by (simp_all add: with_image_def setBackgroundImage_def official_node_def createCanvasWidget_def
        newVisualizer_def drawPlaceholder_def)

text \<open>
  C9, as stated, fails: with an image set and the opacity 0.2 configured, the overlay is
  drawn with the alpha 0.25, and no call sets the alpha to the configured value.
\<close>

theorem image_overlay_alpha_counterexample:
  "SetGlobalAlpha (backgroundOpacity with_image) \<notin> set (renderBackground with_image 800 200)
   \<and> SetGlobalAlpha (Finite (1 / 4)) \<in> set (renderBackground with_image 800 200)"
  by (simp add: renderBackground_def with_image_fields Math_min_def Math_max_def)

text \<open>
  C9, amended. When a background image is set, the background pass fills the canvas with
  the background colour and draws the image over it with the alpha
  \<^verbatim>\<open>Math.max(0, Math.min(1, backgroundOpacity + 0.05))\<close>: for an opacity \<open>r\<close> of the
  interval from 0 to 0.5 that is \<open>r + 0.05\<close>, not \<open>r\<close>.
\<close>

theorem image_overlay_alpha:
  assumes "backgroundImageCanvas s = Some img"
  shows "renderBackground s WIDTH HEIGHT =
           [SetFillStyle (Plain (Css (backgroundColor (config s)))),
            FillRect (Finite 0) (Finite 0) (Finite (real WIDTH)) (Finite (real HEIGHT)),
            Save,
            SetGlobalAlpha
              (Math_max (Finite 0)
                 (Math_min (Finite 1) (js_add (backgroundOpacity s) (Finite (5 / 100))))),
            DrawImage img (Finite 0) (Finite 0) (Finite (real WIDTH)) (Finite (real HEIGHT)),
            Restore]
       \<and> (backgroundOpacity s = Finite r \<and> 0 \<le> r \<and> r \<le> 1 / 2 \<longrightarrow>
            Math_max (Finite 0)
              (Math_min (Finite 1) (js_add (backgroundOpacity s) (Finite (5 / 100))))
              = Finite (r + 5 / 100))"
  using assms by (auto simp: renderBackground_def Math_min_def Math_max_def)

theorem image_overlay_alpha_witness:
  "backgroundImageCanvas with_image = Some (Image 512 256)
   \<and> backgroundOpacity with_image = Finite (2 / 10)
   \<and> renderBackground with_image 800 200 =
           [SetFillStyle (Plain (Css ''#09090b'')),
            FillRect (Finite 0) (Finite 0) (Finite 800) (Finite 200),
            Save,
            SetGlobalAlpha (Finite (1 / 4)),
            DrawImage (Image 512 256) (Finite 0) (Finite 0) (Finite 800) (Finite 200),
            Restore]"
proof -
  from image_overlay_alpha
         [OF with_image_fields(1), where r = "2 / 10" and WIDTH = 800 and HEIGHT = 200]
       with_image_fields
  show ?thesis by (simp add: Math_min_def Math_max_def)
qed

subsection \<open>What the analyser hands to a renderer\<close>

lemma circular_index_bound:
  assumes "1 \<le> n" "i < barsToDraw"
  shows "i * circular_step n \<le> n - 1"
proof (cases "n div 180 = 0")
  case True
  then show ?thesis by (simp add: circular_step_def barsToDraw_def)
next
  case False
  have "i * (n div 180) \<le> 179 * (n div 180)" using assms(2) by (simp add: barsToDraw_def)
  also have "\<dots> < 180 * (n div 180)" using False by simp
  also have "\<dots> \<le> n" by simp
  finally show ?thesis by (simp add: circular_step_def barsToDraw_def)
qed

lemma length_getByteFrequencyData:
  "length (getByteFrequencyData an e xs) = length xs"
  by (simp add: getByteFrequencyData_def Let_def)

lemma length_getByteTimeDomainData:
  "length (getByteTimeDomainData an e xs) = length xs"
  by (simp add: getByteTimeDomainData_def Let_def)

lemma time_fill:
  "getByteTimeDomainData an e (newDataArray an) = map (timeDomain e) [0..<frequencyBinCount an]"
  by (simp add: getByteTimeDomainData_def Let_def newDataArray_def frequencyBinCount_def min_def)

lemma freq_fill:
  "getByteFrequencyData an e (newDataArray an) = map (frequency e) [0..<frequencyBinCount an]"
  by (simp add: getByteFrequencyData_def Let_def newDataArray_def)

lemma valid_even: "valid_fftSize n \<Longrightarrow> 2 * (n div 2) = n"
  by (auto simp: valid_fftSize_def)

lemma circular_disc_wide:
  assumes "40 \<le> min WIDTH HEIGHT"
  shows "circular_disc cfg WIDTH HEIGHT =
           ([BeginPath,
             Arc (Finite (real WIDTH / 2)) (Finite (real HEIGHT / 2))
                 (Finite (real (min WIDTH HEIGHT) / 4 - 10)) (Finite 0) (Finite (2 * pi)),
             SetFillStyle (Plain (HexToRgba (secondaryColor cfg) (2 / 10))),
             Fill],
            None)"
proof -
  have "40 \<le> real (min WIDTH HEIGHT)" using assms by linarith
  then have "\<not> real (min WIDTH HEIGHT) / 4 - 10 < 0" by linarith
  then show ?thesis by (simp add: circular_disc_def Let_def)
qed

lemma circular_disc_narrow:
  assumes "min WIDTH HEIGHT < 40"
  shows "circular_disc cfg WIDTH HEIGHT = ([BeginPath], Some IndexSizeError)"
proof -
  have "real (min WIDTH HEIGHT) < 40" using assms by linarith
  then have "real (min WIDTH HEIGHT) / 4 - 10 < 0" by linarith
  then show ?thesis by (simp add: circular_disc_def Let_def)
qed

lemma drawCircular_wide:
  assumes "40 \<le> min WIDTH HEIGHT"
  shows "drawCircular cfg an e dataArray WIDTH HEIGHT bufferLength =
           (getByteFrequencyData an e dataArray,
            fst (circular_disc cfg WIDTH HEIGHT)
            @ circular_bars cfg (getByteFrequencyData an e dataArray) WIDTH HEIGHT
                (circular_step bufferLength),
            None)"
  by (simp add: drawCircular_def Let_def circular_disc_wide [OF assms])

lemma drawCircular_narrow:
  assumes "min WIDTH HEIGHT < 40"
  shows "drawCircular cfg an e dataArray WIDTH HEIGHT bufferLength =
           (getByteFrequencyData an e dataArray, [BeginPath], Some IndexSizeError)"
  by (simp add: drawCircular_def Let_def circular_disc_narrow [OF assms])

text \<open>
  The sampling of the circular mode. For every buffer of at least one bin, each index
  \<open>i * step\<close> with \<open>i < 180\<close> and \<open>step = floor(bufferLength / 180)\<close> is at most
  \<open>bufferLength - 1\<close>; for 1024 bins the step is 5. On a canvas whose smaller side is at
  least 40, the circular mode draws the disc and then exactly 180 bars: bar \<open>i\<close> stands at
  the angle \<open>i\<close> times a 180th of the full turn, and its two strokes have the length
  given by the bin at the index \<open>i * step\<close>, a read that finds a value. On a smaller
  canvas the disc throws and no bar is drawn.
\<close>

lemma circular_samples_in_range:
  assumes "1 \<le> bufferLength" and "length dataArray = bufferLength"
  shows "(\<forall>i < 180. i * (bufferLength div 180) \<le> bufferLength - 1)
       \<and> circular_step bufferLength = bufferLength div 180
       \<and> circular_step 1024 = 5
       \<and> (40 \<le> min WIDTH HEIGHT \<longrightarrow>
            drawCircular cfg an e dataArray WIDTH HEIGHT bufferLength =
              (getByteFrequencyData an e dataArray,
               [BeginPath,
                Arc (Finite (real WIDTH / 2)) (Finite (real HEIGHT / 2))
                    (Finite (real (min WIDTH HEIGHT) / 4 - 10)) (Finite 0) (Finite (2 * pi)),
                SetFillStyle (Plain (HexToRgba (secondaryColor cfg) (2 / 10))),
                Fill]
               @ concat (map
                   (\<lambda>i. let bin = real (unat (getByteFrequencyData an e dataArray
                                                  ! (i * (bufferLength div 180))));
                            angle = real i * (2 * pi / 180);
                            centerX = real WIDTH / 2;
                            centerY = real HEIGHT / 2;
                            radius = real (min WIDTH HEIGHT) / 4;
                            barHeight = bin / 255 * (real (min WIDTH HEIGHT) / 3)
                        in [SetStrokeStyle (Plain (Css (primaryColor cfg))), SetLineWidth 2,
                            BeginPath,
                            MoveTo (Finite (centerX + cos angle * radius))
                                   (Finite (centerY + sin angle * radius)),
                            LineTo (Finite (centerX + cos angle * (radius + barHeight)))
                                   (Finite (centerY + sin angle * (radius + barHeight))),
                            Stroke,
                            SetStrokeStyle (Plain (Css (secondaryColor cfg))),
                            BeginPath,
                            MoveTo (Finite (centerX + cos angle * radius))
                                   (Finite (centerY + sin angle * radius)),
                            LineTo (Finite (centerX + cos angle * (radius - barHeight * (3 / 10))))
                                   (Finite (centerY + sin angle * (radius - barHeight * (3 / 10)))),
                            Stroke])
                   [0..<180]),
               None))
       \<and> (min WIDTH HEIGHT < 40 \<longrightarrow>
            drawCircular cfg an e dataArray WIDTH HEIGHT bufferLength =
              (getByteFrequencyData an e dataArray, [BeginPath], Some IndexSizeError))
       \<and> (\<forall>i < 180. read_at (getByteFrequencyData an e dataArray)
                         (i * circular_step bufferLength) \<noteq> None)"
    (is "?A \<and> ?B \<and> ?C \<and> (?w \<longrightarrow> ?wide) \<and> (?n \<longrightarrow> ?narrow) \<and> ?R")
proof -
  let ?d = "getByteFrequencyData an e dataArray"
  let ?s = "circular_step bufferLength"
  have inr: "i * ?s < length ?d" if "i < barsToDraw" for i
    using circular_index_bound [OF assms(1) that] assms
    by (simp add: length_getByteFrequencyData)
  have a: "?A"
    using circular_index_bound [OF assms(1)] by (simp add: barsToDraw_def circular_step_def)
  have b: "?B" and c: "?C"
    by (simp_all add: circular_step_def barsToDraw_def)
  have bars: "map (\<lambda>i. circular_bar cfg WIDTH HEIGHT (read_at ?d (i * ?s)) i) [0..<barsToDraw]
      = map (\<lambda>i. circular_bar cfg WIDTH HEIGHT (Some (real (unat (?d ! (i * ?s))))) i)
          [0..<barsToDraw]"
    by (rule map_cong) (simp_all add: read_at_def inr)
  have wide: "?wide" if w: "?w"
    unfolding drawCircular_wide [OF w] circular_bars_def bars circular_disc_wide [OF w] fst_conv
    unfolding Let_def circular_bar_def num_def option.case angleStep_def
      circular_step_def barsToDraw_def of_nat_numeral
    by (rule refl)
  have narrow: "?narrow" if n: "?n"
    by (rule drawCircular_narrow [OF n])
  have r: "?R"
    using inr by (simp add: read_at_def barsToDraw_def)
  show ?thesis
  proof (intro conjI impI)
    show "?A" by (rule a)
    show "?B" by (rule b)
    show "?C" by (rule c)
    show "?wide" if "?w" by (rule wide [OF that])
    show "?narrow" if "?n" by (rule narrow [OF that])
    show "?R" by (rule r)
  qed
qed

lemma circular_samples_at_1024:
  "(1::nat) \<le> 1024
   \<and> length (newDataArray analyser_2048) = 1024
   \<and> circular_step 1024 = 5
   \<and> 179 * (1024 div 180) \<le> (1023::nat)
   \<and> read_at (getByteFrequencyData analyser_2048 zero_frame (newDataArray analyser_2048))
        (179 * circular_step 1024) \<noteq> None
   \<and> (40::nat) \<le> min 800 200
   \<and> snd (snd (drawCircular (config official_node) analyser_2048 zero_frame
                  (newDataArray analyser_2048) 800 200 1024)) = None
   \<and> length (fst (snd (drawCircular (config official_node) analyser_2048 zero_frame
                          (newDataArray analyser_2048) 800 200 1024))) = 4 + 180 * 11"
proof -
  have h1: "(1::nat) \<le> 1024" by simp
  have h2: "length (newDataArray analyser_2048) = 1024"
    by (simp add: newDataArray_def frequencyBinCount_def analyser_2048_def)
  have h3: "(40::nat) \<le> min 800 200" by simp
  note t = circular_samples_in_range [OF h1 h2, where an = analyser_2048 and e = zero_frame
      and cfg = "config official_node" and WIDTH = 800 and HEIGHT = 200]
  have k: "(179::nat) < 180" by simp
  note a = t [THEN conjunct1, rule_format, OF k]
  note b = t [THEN conjunct2, THEN conjunct2, THEN conjunct1]
  note c = t [THEN conjunct2, THEN conjunct2, THEN conjunct2, THEN conjunct1, rule_format, OF h3]
  note f = t [THEN conjunct2, THEN conjunct2, THEN conjunct2, THEN conjunct2, THEN conjunct2,
              rule_format, OF k]
  have d: "snd (snd (drawCircular (config official_node) analyser_2048 zero_frame
                  (newDataArray analyser_2048) 800 200 1024)) = None"
    unfolding c by simp
  have e: "length (fst (snd (drawCircular (config official_node) analyser_2048 zero_frame
                          (newDataArray analyser_2048) 800 200 1024))) = 4 + 180 * 11"
    unfolding c by (simp add: length_concat comp_def Let_def sum_list_triv)
  from h1 h2 h3 a b d e f show ?thesis by simp
qed


subsection \<open>The renderers on a constant signal\<close>

lemma plotted_ys_append: "plotted_ys (xs @ ys) = plotted_ys xs @ plotted_ys ys"
  by (induction xs rule: plotted_ys.induct) simp_all

lemma bar_heights_append: "bar_heights (xs @ ys) = bar_heights xs @ bar_heights ys"
  by (induction xs rule: bar_heights.induct) simp_all

lemma wave_main_constant:
  assumes "\<And>j. j < n \<Longrightarrow> read_at d j = Some b"
  shows "plotted_ys (drawWave_main d sw H n i x) = replicate (n - i) (Finite ((b / 128 * real H) / 2))"
  using assms
proof (induction d sw H n i x rule: drawWave_main.induct)
  case (1 d sw H n i x)
  show ?case
  proof (cases "i < n")
    case True
    have step: "drawWave_main d sw H n i x =
        (if i = 0 then MoveTo (Finite x) (Finite ((b / 128 * real H) / 2))
         else LineTo (Finite x) (Finite ((b / 128 * real H) / 2)))
        # drawWave_main d sw H n (i + 1) (x + sw)"
      using True "1.prems" [OF True] by (subst drawWave_main.simps) (simp add: num_def Let_def)
    have ih: "plotted_ys (drawWave_main d sw H n (i + 1) (x + sw))
              = replicate (n - (i + 1)) (Finite ((b / 128 * real H) / 2))"
      using "1.IH" [OF True refl] "1.prems" by simp
    have n: "n - i = Suc (n - (i + 1))" using True by simp
    show ?thesis unfolding step n using ih by (cases "i = 0") simp_all
  next
    case False
    then show ?thesis by (subst drawWave_main.simps) simp
  qed
qed

lemma wave_aux_constant:
  assumes "\<And>j. j < n \<Longrightarrow> read_at d j = Some b"
  shows "plotted_ys (drawWave_aux d sw H n i x)
         = replicate ((n + 4 - i) div 5) (Finite ((b / 128 * real H) / 2 + 5))"
  using assms
proof (induction d sw H n i x rule: drawWave_aux.induct)
  case (1 d sw H n i x)
  show ?case
  proof (cases "i < n")
    case True
    have step: "drawWave_aux d sw H n i x =
        (if i = 0 then MoveTo (Finite x) (Finite ((b / 128 * real H) / 2 + 5))
         else LineTo (Finite x) (Finite ((b / 128 * real H) / 2 + 5)))
        # drawWave_aux d sw H n (i + 5) (x + sw * 5)"
      using True "1.prems" [OF True] by (subst drawWave_aux.simps) (simp add: num_def Let_def)
    have ih: "plotted_ys (drawWave_aux d sw H n (i + 5) (x + sw * 5))
              = replicate ((n + 4 - (i + 5)) div 5) (Finite ((b / 128 * real H) / 2 + 5))"
      using "1.IH" [OF True refl] "1.prems" by simp
    have "n + 4 - i = (n + 4 - (i + 5)) + 5" using True by simp
    then have n: "(n + 4 - i) div 5 = Suc ((n + 4 - (i + 5)) div 5)" by simp
    show ?thesis unfolding step n using ih by (cases "i = 0") simp_all
  next
    case False
    then have "(n + 4 - i) div 5 = 0" by simp
    with False show ?thesis by (subst drawWave_aux.simps) simp
  qed
qed

lemma bars_zero:
  assumes "\<And>j. j < n \<Longrightarrow> read_at d j = Some 0"
  shows "list_all (\<lambda>h. h = Finite 0) (bar_heights (fst (drawBars_loop cfg d bw W H n i x)))
       \<and> snd (drawBars_loop cfg d bw W H n i x) = None"
  using assms
proof (induction cfg d bw W H n i x rule: drawBars_loop.induct)
  case (1 cfg d bw W H n i x)
  show ?case
  proof (cases "i < n")
    case True
    note r = "1.prems" [OF True]
    show ?thesis
    proof (cases "x + (bw + 1) > real W")
      case over: True
      with True r show ?thesis
        by (subst (1 2) drawBars_loop.simps) (simp add: Let_def)
    next
      case under: False
      have ih: "list_all (\<lambda>h. h = Finite 0)
                  (bar_heights (fst (drawBars_loop cfg d bw W H n (i + 1) (x + (bw + 1)))))
              \<and> snd (drawBars_loop cfg d bw W H n (i + 1) (x + (bw + 1))) = None"
        using "1.IH" [OF True r refl refl refl refl refl under] "1.prems" by simp
      from True r under ih show ?thesis
        by (subst (1 2) drawBars_loop.simps) (simp add: Let_def bar_heights_append)
    qed
  next
    case False
    then show ?thesis by (subst (1 2) drawBars_loop.simps) simp
  qed
qed

lemma bars_first:
  "0 < n \<Longrightarrow> read_at d 0 = Some b \<Longrightarrow>
     bar_heights (fst (drawBars_loop cfg d bw W H n 0 x)) \<noteq> []"
  by (subst drawBars_loop.simps) (simp add: Let_def)

lemma bars_complete:
  assumes "n \<le> length d"
  shows "snd (drawBars_loop cfg d bw W H n i x) = None"
  using assms
proof (induction cfg d bw W H n i x rule: drawBars_loop.induct)
  case (1 cfg d bw W H n i x)
  show ?case
  proof (cases "i < n")
    case True
    then have r: "read_at d i = Some (real (unat (d ! i)))"
      using "1.prems" by (simp add: read_at_def)
    show ?thesis
    proof (cases "x + (bw + 1) > real W")
      case over: True
      with True r show ?thesis
        by (subst drawBars_loop.simps) (simp add: Let_def)
    next
      case under: False
      have ih: "snd (drawBars_loop cfg d bw W H n (i + 1) (x + (bw + 1))) = None"
        using "1.IH" [OF True r refl refl refl refl refl under] "1.prems" by simp
      from True r under ih show ?thesis
        by (subst drawBars_loop.simps) (simp add: Let_def)
    qed
  next
    case False
    then show ?thesis by (subst drawBars_loop.simps) simp
  qed
qed

subsection \<open>The buffer of a frame\<close>

lemma fst_drawCircular:
  "fst (drawCircular cfg an e d WIDTH HEIGHT n) = getByteFrequencyData an e d"
  by (simp add: drawCircular_def Let_def split: prod.splits option.splits)

lemma valid_bins: "valid_fftSize n \<Longrightarrow> 1 \<le> n div 2"
  by (auto simp: valid_fftSize_def)

text \<open>
  C1, as stated, fails for the time domain: with the FFT size 2048 the array the Wave
  renderer reads into has 1024 bytes, not 2048.
\<close>

theorem wave_buffer_counterexample:
  "valid_fftSize (an_fftSize analyser_2048)
   \<and> length (fst (drawWave (config official_node) analyser_2048 zero_frame
                     (newDataArray analyser_2048) 800 200 (frequencyBinCount analyser_2048)))
       \<noteq> an_fftSize analyser_2048"
  by (simp add: valid_fftSize_def analyser_2048_def drawWave_def Let_def time_fill
        frequencyBinCount_def)

text \<open>
  C1, amended. For every valid FFT size of the analyser the array of a frame has exactly
  half that many bytes, whichever renderer reads into it: the frequency-domain read of
  Bars and Circular fills it with the bins, and the time-domain read of Wave fills it with
  the first half of the samples of the window.
\<close>

theorem frame_buffer_lengths:
  assumes "valid_fftSize (an_fftSize an)"
  shows "2 * length (fst (drawBars cfg an e (newDataArray an) WIDTH HEIGHT (frequencyBinCount an)))
           = an_fftSize an
       \<and> 2 * length (fst (drawCircular cfg an e (newDataArray an) WIDTH HEIGHT
                              (frequencyBinCount an)))
           = an_fftSize an
       \<and> 2 * length (fst (drawWave cfg an e (newDataArray an) WIDTH HEIGHT (frequencyBinCount an)))
           = an_fftSize an
       \<and> fst (drawWave cfg an e (newDataArray an) WIDTH HEIGHT (frequencyBinCount an))
           = map (timeDomain e) [0..<an_fftSize an div 2]
       \<and> fst (drawBars cfg an e (newDataArray an) WIDTH HEIGHT (frequencyBinCount an))
           = map (frequency e) [0..<an_fftSize an div 2]
       \<and> fst (drawCircular cfg an e (newDataArray an) WIDTH HEIGHT (frequencyBinCount an))
           = map (frequency e) [0..<an_fftSize an div 2]"
  using valid_even [OF assms]
  by (simp add: drawBars_def fst_drawCircular drawWave_def Let_def time_fill freq_fill
        frequencyBinCount_def)

theorem frame_buffer_lengths_witness:
  "valid_fftSize (an_fftSize analyser_2048)
   \<and> length (fst (drawBars (config official_node) analyser_2048 zero_frame
                     (newDataArray analyser_2048) 800 200 (frequencyBinCount analyser_2048))) = 1024
   \<and> length (fst (drawWave (config official_node) analyser_2048 zero_frame
                     (newDataArray analyser_2048) 800 200 (frequencyBinCount analyser_2048))) = 1024"
proof -
  have v: "valid_fftSize (an_fftSize analyser_2048)"
    by (simp add: valid_fftSize_def analyser_2048_def)
  have n: "an_fftSize analyser_2048 = 2048" by (simp add: analyser_2048_def)
  from frame_buffer_lengths
         [OF v, where cfg = "config official_node" and e = zero_frame and WIDTH = 800 and HEIGHT = 200]
       v
  show ?thesis unfolding n by simp
qed

subsection \<open>Silence\<close>

lemma wave_ys:
  assumes "\<forall>i. timeDomain e i = b"
  shows "plotted_ys (snd (drawWave cfg an e (newDataArray an) WIDTH HEIGHT (frequencyBinCount an)))
         = replicate (frequencyBinCount an) (Finite ((real (unat b) / 128 * real HEIGHT) / 2))
           @ [Finite (real HEIGHT / 2)]
           @ replicate ((frequencyBinCount an + 4) div 5)
               (Finite ((real (unat b) / 128 * real HEIGHT) / 2 + 5))"
proof -
  let ?n = "frequencyBinCount an"
  let ?d = "map (timeDomain e) [0..<?n]"
  have r: "\<And>j. j < ?n \<Longrightarrow> read_at ?d j = Some (real (unat b))"
    using assms by (simp add: read_at_def)
  show ?thesis
    using wave_main_constant [of ?n ?d "real (unat b)", OF r]
          wave_aux_constant [of ?n ?d "real (unat b)", OF r]
    by (simp add: drawWave_def Let_def time_fill plotted_ys_append)
qed

lemma bars_heights_zero:
  assumes "\<forall>i. frequency e i = 0" and "1 \<le> frequencyBinCount an"
  shows "snd (snd (drawBars cfg an e (newDataArray an) WIDTH HEIGHT (frequencyBinCount an))) = None
       \<and> list_all (\<lambda>h. h = Finite 0)
           (bar_heights (fst (snd (drawBars cfg an e (newDataArray an) WIDTH HEIGHT
                                     (frequencyBinCount an)))))
       \<and> bar_heights (fst (snd (drawBars cfg an e (newDataArray an) WIDTH HEIGHT
                                   (frequencyBinCount an))))
           \<noteq> []"
proof -
  let ?n = "frequencyBinCount an"
  let ?d = "map (frequency e) [0..<?n]"
  have r: "\<And>j. j < ?n \<Longrightarrow> read_at ?d j = Some 0"
    using assms by (simp add: read_at_def)
  from assms(2) have p: "0 < ?n" by simp
  show ?thesis
    using bars_zero [of ?n ?d, OF r] bars_first [OF p r [OF p]]
    by (simp add: drawBars_def Let_def freq_fill)
qed

lemma circular_zero:
  assumes "\<forall>i. frequency e i = 0" and "1 \<le> frequencyBinCount an"
  shows "circular_bars cfg (getByteFrequencyData an e (newDataArray an)) WIDTH HEIGHT
           (circular_step (frequencyBinCount an))
         = concat (map (\<lambda>i. circular_bar cfg WIDTH HEIGHT (Some 0) i) [0..<barsToDraw])"
proof -
  let ?n = "frequencyBinCount an"
  let ?d = "map (frequency e) [0..<?n]"
  have l: "length ?d = ?n" by simp
  have "map (\<lambda>i. circular_bar cfg WIDTH HEIGHT (read_at ?d (i * circular_step ?n)) i) [0..<barsToDraw]
      = map (\<lambda>i. circular_bar cfg WIDTH HEIGHT (Some 0) i) [0..<barsToDraw]"
  proof (rule map_cong)
    fix i assume "i \<in> set [0..<barsToDraw]"
    then have "i < barsToDraw" by simp
    from circular_index_bound [OF assms(2) this]  assms(2)
    have "i * circular_step ?n < ?n" by simp
    then show "circular_bar cfg WIDTH HEIGHT (read_at ?d (i * circular_step ?n)) i
             = circular_bar cfg WIDTH HEIGHT (Some 0) i"
      using assms(1) by (simp add: read_at_def)
  qed simp
  then show ?thesis
    by (simp only: circular_bars_def freq_fill)
qed

lemma circular_bar_zero:
  "circular_bar cfg WIDTH HEIGHT (Some 0) i =
     (let x1 = Finite (real WIDTH / 2 + cos (real i * (2 * pi / 180)) * (real (min WIDTH HEIGHT) / 4));
          y1 = Finite (real HEIGHT / 2 + sin (real i * (2 * pi / 180)) * (real (min WIDTH HEIGHT) / 4))
      in [SetStrokeStyle (Plain (Css (primaryColor cfg))), SetLineWidth 2,
          BeginPath, MoveTo x1 y1, LineTo x1 y1, Stroke,
          SetStrokeStyle (Plain (Css (secondaryColor cfg))),
          BeginPath, MoveTo x1 y1, LineTo x1 y1, Stroke])"
  by (simp add: circular_bar_def Let_def num_def angleStep_def barsToDraw_def)

lemma zero_frame_fields:
  "\<forall>i. timeDomain zero_frame i = 0"
  "\<forall>i. frequency zero_frame i = 0"
  "rect_width zero_frame = 800"
  "rect_height zero_frame = 200"
  "audioSupported zero_frame"
  by (simp_all add: zero_frame_def)

lemma analyser_2048_fields:
  "valid_fftSize (an_fftSize analyser_2048)"
  "frequencyBinCount analyser_2048 = 1024"
  "an_fftSize analyser_2048 = 2048"
  by (simp_all add: analyser_2048_def valid_fftSize_def frequencyBinCount_def)

text \<open>
  C5, as stated, fails for Wave: on an all-zero buffer the first point of the line is
  plotted at \<open>y = 0\<close>, the top edge, and not at half the height (100 for a canvas 200
  high).
\<close>

theorem zero_buffer_wave_counterexample:
  "hd (plotted_ys (snd (drawWave (config official_node) analyser_2048 zero_frame
                          (newDataArray analyser_2048) 800 200 (frequencyBinCount analyser_2048))))
     = Finite 0
   \<and> hd (plotted_ys (snd (drawWave (config official_node) analyser_2048 zero_frame
                          (newDataArray analyser_2048) 800 200 (frequencyBinCount analyser_2048))))
     \<noteq> Finite (200 / 2)"
proof -
  note w = wave_ys [OF zero_frame_fields(1), where an = analyser_2048
                    and cfg = "config official_node" and WIDTH = 800 and HEIGHT = 200]
  show ?thesis unfolding w by (simp add: analyser_2048_fields hd_append)
qed

text \<open>
  C5, amended. On a buffer that holds one value throughout, Wave reads inside the buffer
  and makes calls that cannot throw. It plots its main line flat at
  \<open>(value / 128) * height / 2\<close>, then the closing point at half the height, then the
  auxiliary line 5 below the main one: for the all-zero buffer the line is flat at the top
  edge, \<open>y = 0\<close>, and it is flat at the vertical centre for the value 128, which is how
  the time domain encodes silence. Bars on an all-zero buffer does not throw, draws at
  least one bar and every bar with the height 0. Circular on an all-zero buffer does not
  throw when the smaller side of the canvas is at least 40: it draws the disc and its 180
  bars with the length 0, each stroke ending where it starts.
\<close>

theorem constant_signal_renders_flat:
  assumes "\<forall>i. timeDomain e i = b" and "\<forall>i. frequency e i = 0"
    and "valid_fftSize (an_fftSize an)"
  shows "plotted_ys (snd (drawWave cfg an e (newDataArray an) WIDTH HEIGHT (frequencyBinCount an)))
           = replicate (frequencyBinCount an) (Finite ((real (unat b) / 128 * real HEIGHT) / 2))
             @ [Finite (real HEIGHT / 2)]
             @ replicate ((frequencyBinCount an + 4) div 5)
                 (Finite ((real (unat b) / 128 * real HEIGHT) / 2 + 5))
       \<and> (b = 0 \<longrightarrow> Finite ((real (unat b) / 128 * real HEIGHT) / 2) = Finite 0)
       \<and> (b = 128 \<longrightarrow> Finite ((real (unat b) / 128 * real HEIGHT) / 2) = Finite (real HEIGHT / 2))
       \<and> (snd (snd (drawBars cfg an e (newDataArray an) WIDTH HEIGHT (frequencyBinCount an)))
            = None
          \<and> list_all (\<lambda>h. h = Finite 0)
              (bar_heights (fst (snd (drawBars cfg an e (newDataArray an) WIDTH HEIGHT
                                        (frequencyBinCount an)))))
          \<and> bar_heights (fst (snd (drawBars cfg an e (newDataArray an) WIDTH HEIGHT
                                      (frequencyBinCount an))))
              \<noteq> [])
       \<and> (40 \<le> min WIDTH HEIGHT \<longrightarrow>
            snd (drawCircular cfg an e (newDataArray an) WIDTH HEIGHT (frequencyBinCount an))
            = ([BeginPath,
                Arc (Finite (real WIDTH / 2)) (Finite (real HEIGHT / 2))
                    (Finite (real (min WIDTH HEIGHT) / 4 - 10)) (Finite 0) (Finite (2 * pi)),
                SetFillStyle (Plain (HexToRgba (secondaryColor cfg) (2 / 10))),
                Fill]
               @ concat (map
                   (\<lambda>i. let x1 = Finite (real WIDTH / 2
                                          + cos (real i * (2 * pi / 180))
                                            * (real (min WIDTH HEIGHT) / 4));
                            y1 = Finite (real HEIGHT / 2
                                          + sin (real i * (2 * pi / 180))
                                            * (real (min WIDTH HEIGHT) / 4))
                        in [SetStrokeStyle (Plain (Css (primaryColor cfg))), SetLineWidth 2,
                            BeginPath, MoveTo x1 y1, LineTo x1 y1, Stroke,
                            SetStrokeStyle (Plain (Css (secondaryColor cfg))),
                            BeginPath, MoveTo x1 y1, LineTo x1 y1, Stroke])
                   [0..<180]),
               None))"
    (is "?wave \<and> ?top \<and> ?centre \<and> ?bars \<and> (?w \<longrightarrow> ?wide)")
proof -
  have n: "1 \<le> frequencyBinCount an"
    using valid_bins [OF assms(3)] by (simp add: frequencyBinCount_def)
  have wide: "?wide" if w: "?w"
    unfolding drawCircular_wide [OF w] snd_conv circular_zero [OF assms(2) n]
      circular_disc_wide [OF w] fst_conv circular_bar_zero barsToDraw_def
    by (rule refl)
  show ?thesis
  proof (intro conjI impI)
    show "?wave" by (rule wave_ys [OF assms(1)])
    show "b = 0 \<Longrightarrow> Finite ((real (unat b) / 128 * real HEIGHT) / 2) = Finite 0" by simp
    show "b = 128 \<Longrightarrow>
            Finite ((real (unat b) / 128 * real HEIGHT) / 2) = Finite (real HEIGHT / 2)"
      by simp
    show "snd (snd (drawBars cfg an e (newDataArray an) WIDTH HEIGHT (frequencyBinCount an)))
            = None"
      using bars_heights_zero [OF assms(2) n] by blast
    show "list_all (\<lambda>h. h = Finite 0)
              (bar_heights (fst (snd (drawBars cfg an e (newDataArray an) WIDTH HEIGHT
                                        (frequencyBinCount an)))))"
      using bars_heights_zero [OF assms(2) n] by blast
    show "bar_heights (fst (snd (drawBars cfg an e (newDataArray an) WIDTH HEIGHT
                                      (frequencyBinCount an))))
              \<noteq> []"
      using bars_heights_zero [OF assms(2) n] by blast
    show "?wide" if "?w" by (rule wide [OF that])
  qed
qed

theorem constant_signal_renders_flat_witness:
  "(\<forall>i. timeDomain zero_frame i = 0) \<and> (\<forall>i. frequency zero_frame i = 0)
   \<and> valid_fftSize (an_fftSize analyser_2048)
   \<and> plotted_ys (snd (drawWave (config official_node) analyser_2048 zero_frame
                         (newDataArray analyser_2048) 800 200 (frequencyBinCount analyser_2048)))
       = replicate 1024 (Finite 0) @ [Finite 100] @ replicate 205 (Finite 5)
   \<and> snd (snd (drawBars (config official_node) analyser_2048 zero_frame
                  (newDataArray analyser_2048) 800 200 (frequencyBinCount analyser_2048))) = None
   \<and> list_all (\<lambda>h. h = Finite 0)
        (bar_heights (fst (snd (drawBars (config official_node) analyser_2048 zero_frame
                                  (newDataArray analyser_2048) 800 200
                                  (frequencyBinCount analyser_2048)))))
   \<and> (40::nat) \<le> min 800 200
   \<and> snd (snd (drawCircular (config official_node) analyser_2048 zero_frame
                  (newDataArray analyser_2048) 800 200 (frequencyBinCount analyser_2048))) = None
   \<and> (\<forall>i. timeDomain silent_frame i = 128) \<and> (\<forall>i. frequency silent_frame i = 0)
   \<and> plotted_ys (snd (drawWave (config official_node) analyser_2048 silent_frame
                         (newDataArray analyser_2048) 800 200 (frequencyBinCount analyser_2048)))
       = replicate 1024 (Finite 100) @ [Finite 100] @ replicate 205 (Finite 105)"
proof -
  have s: "\<forall>i. timeDomain silent_frame i = 128" "\<forall>i. frequency silent_frame i = 0"
    by (simp_all add: silent_frame_def zero_frame_def)
  note u = constant_signal_renders_flat
         [OF s analyser_2048_fields(1),
          where cfg = "config official_node" and WIDTH = 800 and HEIGHT = 200, THEN conjunct1]
  have d: "plotted_ys (snd (drawWave (config official_node) analyser_2048 silent_frame
                         (newDataArray analyser_2048) 800 200 (frequencyBinCount analyser_2048)))
       = replicate 1024 (Finite 100) @ [Finite 100] @ replicate 205 (Finite 105)"
    unfolding u by (simp add: analyser_2048_fields)
  note t = constant_signal_renders_flat
         [OF zero_frame_fields(1) zero_frame_fields(2) analyser_2048_fields(1),
          where cfg = "config official_node" and HEIGHT = 200]
  have h3: "(40::nat) \<le> min 800 200" by simp
  note wave = t [where WIDTH = 800, THEN conjunct1]
  note bars = t [where WIDTH = 800, THEN conjunct2, THEN conjunct2, THEN conjunct2, THEN conjunct1]
  note wide = t [where WIDTH = 800, THEN conjunct2, THEN conjunct2, THEN conjunct2, THEN conjunct2,
                 rule_format, OF h3]
  have a: "plotted_ys (snd (drawWave (config official_node) analyser_2048 zero_frame
                         (newDataArray analyser_2048) 800 200 (frequencyBinCount analyser_2048)))
       = replicate 1024 (Finite 0) @ [Finite 100] @ replicate 205 (Finite 5)"
    unfolding wave by (simp add: analyser_2048_fields)
  have c: "snd (snd (drawCircular (config official_node) analyser_2048 zero_frame
                  (newDataArray analyser_2048) 800 200 (frequencyBinCount analyser_2048))) = None"
    unfolding wide by simp
  from a bars c d s h3 zero_frame_fields analyser_2048_fields
  show ?thesis by simp
qed

subsection \<open>A frame on a canvas without width\<close>

lemma length_newDataArray [simp]: "length (newDataArray an) = frequencyBinCount an"
  by (simp add: newDataArray_def)

lemma modes_differ:
  "WAVE \<noteq> BARS" "WAVE \<noteq> CIRCULAR" "BARS \<noteq> CIRCULAR"
  "BARS \<noteq> WAVE" "CIRCULAR \<noteq> WAVE" "CIRCULAR \<noteq> BARS"
  by (simp_all add: WAVE_def BARS_def CIRCULAR_def)

lemma dispatch_wave:
  "mode cfg = WAVE \<Longrightarrow>
     dispatch cfg an e d W H n = (snd (drawWave cfg an e d W H n), None)"
  by (simp add: dispatch_def)

lemma dispatch_bars:
  assumes "mode cfg = BARS" and "n \<le> length d"
  shows "dispatch cfg an e d W H n = (fst (snd (drawBars cfg an e d W H n)), None)"
proof -
  have "snd (snd (drawBars cfg an e d W H n)) = None"
    using assms(2)
    by (simp add: drawBars_def Let_def bars_complete length_getByteFrequencyData)
  then show ?thesis
    using assms(1) by (simp add: dispatch_def modes_differ prod_eq_iff)
qed

lemma dispatch_circular:
  "mode cfg = CIRCULAR \<Longrightarrow> dispatch cfg an e d W H n = snd (drawCircular cfg an e d W H n)"
  by (simp add: dispatch_def modes_differ)

lemma draw_calls:
  assumes "ctx s = Some calls" and "analyser s = Some an" and "canvas s = Some cv"
  shows "ctx (snd (draw e s)) =
           Some (calls
                 @ renderBackground s (width (resized e cv)) (height (resized e cv))
                 @ fst (dispatch (config s) an e (newDataArray an)
                          (width (resized e cv)) (height (resized e cv)) (frequencyBinCount an)))"
    and "canvas (snd (draw e s)) = Some (resized e cv)"
    and "fst (draw e s) = snd (dispatch (config s) an e (newDataArray an)
                                 (width (resized e cv)) (height (resized e cv))
                                 (frequencyBinCount an))"
  using assms
  by (simp_all add: draw_def requestAnimationFrame_def Let_def split: prod.splits option.splits)

lemma draw_frames:
  assumes "ctx s = Some calls" and "analyser s = Some an" and "canvas s = Some cv"
  shows "fst (draw e s) = None \<Longrightarrow>
           pendingFrames (snd (draw e s)) = pendingFrames s @ [lastFrame s + 1]
           \<and> animationFrameId (snd (draw e s)) = Some (lastFrame s + 1)"
    and "fst (draw e s) \<noteq> None \<Longrightarrow>
           pendingFrames (snd (draw e s)) = pendingFrames s
           \<and> animationFrameId (snd (draw e s)) = animationFrameId s"
  using assms
  by (simp_all add: draw_def requestAnimationFrame_def Let_def split: prod.splits option.splits)

lemmas unfold_all =
  loaded_node_def playerSets_def official_node_def createCanvasWidget_def newVisualizer_def
  drawPlaceholder_def connectToAudioElement_def initContext_def closeContext_def
  trySplice_def finishInit_def freshAnalyser_def
  accepted_fftSize_def spliceSource_def spliceRecover_def reuseSource_def
  createMediaElementSource_def connect_def disconnect_def startVisualization_def
  stopVisualization_def draw_def requestAnimationFrame_def cancelAnimationFrame_def
  newAudio_def resized_def zero_frame_def cleanup_def dropSource_def dropContext_def
  dropElement_def running_def Let_def dispatch_bars

lemma playing_node_fields:
  "analyser playing_node = Some analyser_2048"
  "canvas playing_node = Some \<lparr>width = 800, height = 200\<rparr>"
  "isInitialized playing_node"
  "pendingFrames playing_node = [1]"
  "animationFrameId playing_node = Some 1"
  "audioElement playing_node = Some (Widget 0)"
  "backgroundOpacity playing_node = Finite (2 / 10)"
  "backgroundImageCanvas playing_node = None"
  "mode (config playing_node) = BARS"
  "ctx playing_node \<noteq> None"
  "marker (elements playing_node (Widget 0)) = Some \<lparr>src_id = 1, src_context = 0\<rparr>"
  "requested (elements playing_node (Widget 0)) = 1"
  "visualizerEnabled playing_node"
  "lastFrame playing_node = 1"
  "isOfficialNode playing_node"
  by (simp_all add: playing_node_def analyser_2048_def unfold_all split: prod.splits)

lemma playing_node_graph:
  "nextId playing_node = 2"
  "accepted_fftSize (fftSize (config playing_node))"
  "source playing_node = Some \<lparr>src_id = 1, src_context = 0\<rparr>"
  "audioContext playing_node = Some 0"
  "closedContexts playing_node = {}"
  "wired playing_node 1 = Some 0"
  by (simp_all add: playing_node_def analyser_2048_def unfold_all split: prod.splits)

lemma background_first:
  "take 2 (renderBackground s WIDTH HEIGHT) =
     [SetFillStyle (Plain (Css (backgroundColor (config s)))),
      FillRect (Finite 0) (Finite 0) (Finite (real WIDTH)) (Finite (real HEIGHT))]"
  by (simp add: renderBackground_def)

lemma narrow_resize:
  "resized narrow_frame \<lparr>width = 800, height = 200\<rparr> = \<lparr>width = 0, height = 200\<rparr>"
  by (simp add: resized_def narrow_frame_def zero_frame_def)

lemma one_bar_on_no_width:
  "drawBars_loop cfg (map (\<lambda>_. 0) [0..<1024]) 0 0 200 1024 0 0 =
     ([SetFillStyle (LinearGradient (Finite 0) (Finite 200) (Finite 0) (Finite 200)
                       [(0, Css (secondaryColor cfg)), (1, Css (primaryColor cfg))]),
       FillRect (Finite 0) (Finite 200) (Finite 0) (Finite 0)],
      None)"
  by (subst drawBars_loop.simps) (simp add: Let_def read_at_def)

text \<open>
  C8, as stated, fails: in a frame whose box on screen is half a pixel wide the canvas gets
  the width 0, and the frame still paints the background and has the renderer draw a bar.
\<close>

theorem zero_width_frame_counterexample:
  "canvas (snd (draw narrow_frame playing_node)) = Some \<lparr>width = 0, height = 200\<rparr>
   \<and> ctx (snd (draw narrow_frame playing_node)) =
       Some (the (ctx playing_node)
             @ [SetFillStyle (Plain (Css ''#09090b'')),
                FillRect (Finite 0) (Finite 0) (Finite 0) (Finite 200),
                Save,
                SetGlobalAlpha (Finite (2 / 10)),
                SetFillStyle
                  (RadialGradient (Finite 0) (Finite 60) (Finite 0) (Finite 0) (Finite 60) (Finite 200)
                     [(0, HexToRgba ''#8b5cf6'' (35 / 100)), (1, Css ''transparent'')]),
                FillRect (Finite 0) (Finite 0) (Finite 0) (Finite 200),
                SetFillStyle
                  (LinearGradient (Finite 0) (Finite 0) (Finite 0) (Finite 200)
                     [(0, HexToRgba ''#3b82f6'' (15 / 100)), (1, Css ''transparent'')]),
                FillRect (Finite 0) (Finite 0) (Finite 0) (Finite 200),
                Restore,
                SetFillStyle
                  (LinearGradient (Finite 0) (Finite 200) (Finite 0) (Finite 200)
                     [(0, Css ''#3b82f6''), (1, Css ''#8b5cf6'')]),
                FillRect (Finite 0) (Finite 200) (Finite 0) (Finite 0)])"
proof -
  obtain calls where c: "ctx playing_node = Some calls"
    using playing_node_fields(10) by blast
  have cfg: "config playing_node =
      \<lparr>mode = BARS, fftSize = 2048, primaryColor = ''#8b5cf6'', secondaryColor = ''#3b82f6'',
       backgroundColor = ''#09090b''\<rparr>"
    by (simp add: playing_node_def unfold_all split: prod.splits)
  have f: "frequency narrow_frame = (\<lambda>_. 0)"
    by (simp add: narrow_frame_def zero_frame_def)
  note d = draw_calls [OF c playing_node_fields(1) playing_node_fields(2), of narrow_frame]
  show ?thesis
    unfolding d narrow_resize c
    by (simp add: renderBackground_def dispatch_def cfg playing_node_fields modes_differ
          drawBars_def freq_fill analyser_2048_fields f one_bar_on_no_width Let_def)
qed

text \<open>
  C8, amended. A frame never skips its calls because of a size: whenever the context, the
  analyser and the canvas exist, the frame paints the background, starting with the fill
  of the whole canvas, and then has the renderer of the current mode draw, both with the
  width and height of the canvas as they are, zero or not. Wave and Bars make all their
  calls at every size, and so does Circular when the smaller side of the canvas is at
  least 40; the frame that has made all its calls requests the next one. A box on screen
  without width or height only keeps the frame from resizing the canvas.
\<close>

theorem draw_paints_at_every_size:
  assumes "ctx s = Some calls" and "analyser s = Some an" and "canvas s = Some cv"
  shows "ctx (snd (draw e s)) =
           Some (calls
                 @ renderBackground s (width (resized e cv)) (height (resized e cv))
                 @ fst (dispatch (config s) an e (newDataArray an)
                          (width (resized e cv)) (height (resized e cv)) (frequencyBinCount an)))
       \<and> take 2 (renderBackground s (width (resized e cv)) (height (resized e cv))) =
           [SetFillStyle (Plain (Css (backgroundColor (config s)))),
            FillRect (Finite 0) (Finite 0) (Finite (real (width (resized e cv))))
              (Finite (real (height (resized e cv))))]
       \<and> canvas (snd (draw e s)) = Some (resized e cv)
       \<and> fst (draw e s) = snd (dispatch (config s) an e (newDataArray an)
                                  (width (resized e cv)) (height (resized e cv))
                                  (frequencyBinCount an))
       \<and> (mode (config s) = WAVE \<longrightarrow>
            dispatch (config s) an e (newDataArray an) WIDTH HEIGHT (frequencyBinCount an)
              = (snd (drawWave (config s) an e (newDataArray an) WIDTH HEIGHT
                        (frequencyBinCount an)),
                 None))
       \<and> (mode (config s) = BARS \<longrightarrow>
            dispatch (config s) an e (newDataArray an) WIDTH HEIGHT (frequencyBinCount an)
              = (fst (snd (drawBars (config s) an e (newDataArray an) WIDTH HEIGHT
                             (frequencyBinCount an))),
                 None))
       \<and> (mode (config s) = CIRCULAR \<longrightarrow>
            dispatch (config s) an e (newDataArray an) WIDTH HEIGHT (frequencyBinCount an)
              = snd (drawCircular (config s) an e (newDataArray an) WIDTH HEIGHT
                       (frequencyBinCount an)))
       \<and> (mode (config s) = CIRCULAR \<and> 40 \<le> min WIDTH HEIGHT \<longrightarrow>
            snd (dispatch (config s) an e (newDataArray an) WIDTH HEIGHT (frequencyBinCount an))
              = None)
       \<and> (fst (draw e s) = None \<longrightarrow>
            pendingFrames (snd (draw e s)) = pendingFrames s @ [lastFrame s + 1]
            \<and> animationFrameId (snd (draw e s)) = Some (lastFrame s + 1))
       \<and> (rect_width e \<le> 0 \<or> rect_height e \<le> 0 \<longrightarrow> resized e cv = cv)"
proof (intro conjI impI)
  show "ctx (snd (draw e s)) =
           Some (calls
                 @ renderBackground s (width (resized e cv)) (height (resized e cv))
                 @ fst (dispatch (config s) an e (newDataArray an)
                          (width (resized e cv)) (height (resized e cv)) (frequencyBinCount an)))"
    by (rule draw_calls(1) [OF assms])
  show "take 2 (renderBackground s (width (resized e cv)) (height (resized e cv))) =
           [SetFillStyle (Plain (Css (backgroundColor (config s)))),
            FillRect (Finite 0) (Finite 0) (Finite (real (width (resized e cv))))
              (Finite (real (height (resized e cv))))]"
    by (rule background_first)
  show "canvas (snd (draw e s)) = Some (resized e cv)"
    by (rule draw_calls(2) [OF assms])
  show "fst (draw e s) = snd (dispatch (config s) an e (newDataArray an)
                                  (width (resized e cv)) (height (resized e cv))
                                  (frequencyBinCount an))"
    by (rule draw_calls(3) [OF assms])
  show "dispatch (config s) an e (newDataArray an) WIDTH HEIGHT (frequencyBinCount an)
              = (snd (drawWave (config s) an e (newDataArray an) WIDTH HEIGHT
                        (frequencyBinCount an)),
                 None)"
    if "mode (config s) = WAVE"
    by (rule dispatch_wave [OF that])
  show "dispatch (config s) an e (newDataArray an) WIDTH HEIGHT (frequencyBinCount an)
              = (fst (snd (drawBars (config s) an e (newDataArray an) WIDTH HEIGHT
                             (frequencyBinCount an))),
                 None)"
    if "mode (config s) = BARS"
    by (rule dispatch_bars [OF that]) simp
  show "dispatch (config s) an e (newDataArray an) WIDTH HEIGHT (frequencyBinCount an)
              = snd (drawCircular (config s) an e (newDataArray an) WIDTH HEIGHT
                       (frequencyBinCount an))"
    if "mode (config s) = CIRCULAR"
    by (rule dispatch_circular [OF that])
  show "snd (dispatch (config s) an e (newDataArray an) WIDTH HEIGHT (frequencyBinCount an))
              = None"
    if "mode (config s) = CIRCULAR \<and> 40 \<le> min WIDTH HEIGHT"
    using that by (simp add: dispatch_circular drawCircular_wide)
  show "pendingFrames (snd (draw e s)) = pendingFrames s @ [lastFrame s + 1]"
    if "fst (draw e s) = None"
    using draw_frames(1) [OF assms that] by blast
  show "animationFrameId (snd (draw e s)) = Some (lastFrame s + 1)"
    if "fst (draw e s) = None"
    using draw_frames(1) [OF assms that] by blast
  show "resized e cv = cv" if "rect_width e \<le> 0 \<or> rect_height e \<le> 0"
    using that by (auto simp: resized_def)
qed

lemma custom_node_constructed: "constructed custom_node"
  by (simp add: constructed_def custom_node_def createCanvasWidget_def newVisualizer_def
        drawPlaceholder_def spliced_once_def newAudio_def)

lemma custom_playing_reachable: "reachable custom_playing"
  unfolding custom_playing_def
  by (intro r_connect r_player r_new custom_node_constructed)

lemma custom_playing_fields:
  "\<not> isOfficialNode custom_playing"
  "audioElement custom_playing = Some (Widget 0)"
  "\<not> paused (elements custom_playing (Widget 0))"
  "src (elements custom_playing (Widget 0)) = ''a.wav''"
  "isInitialized custom_playing"
  "pendingFrames custom_playing = [1]"
  "analyser custom_playing = Some analyser_2048"
  "canvas custom_playing = Some \<lparr>width = 800, height = 200\<rparr>"
  "mode (config custom_playing) = WAVE"
  "ctx custom_playing \<noteq> None"
  by (simp_all add: custom_playing_def custom_node_def analyser_2048_def unfold_all
        dispatch_wave split: prod.splits)

lemma circular_node_fields:
  "analyser circular_node = Some analyser_2048
   \<and> canvas circular_node = Some \<lparr>width = 800, height = 200\<rparr>
   \<and> mode (config circular_node) = CIRCULAR
   \<and> pendingFrames circular_node = [2]
   \<and> animationFrameId circular_node = Some 2
   \<and> lastFrame circular_node = 2
   \<and> ctx circular_node \<noteq> None
   \<and> isInitialized circular_node
   \<and> fst (setMode zero_frame CIRCULAR playing_node) = None"
proof -
  obtain calls where c: "ctx playing_node = Some calls"
    using playing_node_fields(10) by blast
  have r: "resized zero_frame \<lparr>width = 800, height = 200\<rparr> = \<lparr>width = 800, height = 200\<rparr>"
    by (simp add: resized_def zero_frame_def)
  show ?thesis
    by (simp add: circular_node_def setMode_def startVisualization_def stopVisualization_def
        cancelAnimationFrame_def draw_def requestAnimationFrame_def dispatch_circular
        drawCircular_wide r playing_node_fields c modes_differ Let_def)
qed

theorem draw_paints_at_every_size_witness:
  "analyser playing_node = Some analyser_2048
   \<and> canvas playing_node = Some \<lparr>width = 800, height = 200\<rparr>
   \<and> ctx playing_node \<noteq> None
   \<and> canvas (snd (draw narrow_frame playing_node)) = Some \<lparr>width = 0, height = 200\<rparr>
   \<and> take 2 (renderBackground playing_node 0 200) =
        [SetFillStyle (Plain (Css (backgroundColor (config playing_node)))),
         FillRect (Finite 0) (Finite 0) (Finite 0) (Finite 200)]
   \<and> mode (config playing_node) = BARS
   \<and> fst (draw narrow_frame playing_node) = None
   \<and> animationFrameId (snd (draw narrow_frame playing_node)) = Some 2
   \<and> mode (config circular_node) = CIRCULAR
   \<and> (40::nat) \<le> min 800 200
   \<and> fst (draw zero_frame circular_node) = None
   \<and> animationFrameId (snd (draw zero_frame circular_node)) = Some 3
   \<and> mode (config custom_playing) = WAVE
   \<and> fst (draw zero_frame custom_playing) = None
   \<and> rect_width hidden_frame \<le> 0
   \<and> canvas (snd (draw hidden_frame playing_node)) = Some \<lparr>width = 800, height = 200\<rparr>"
proof -
  obtain plotted where w: "ctx custom_playing = Some plotted"
    using custom_playing_fields(10) by blast
  note v = draw_paints_at_every_size
         [OF w custom_playing_fields(7) custom_playing_fields(8), where e = zero_frame
          and WIDTH = 800 and HEIGHT = 200]
  note v4 = v [THEN conjunct2, THEN conjunct2, THEN conjunct2, THEN conjunct1]
  note v5 = v [THEN conjunct2, THEN conjunct2, THEN conjunct2, THEN conjunct2, THEN conjunct1,
               rule_format, OF custom_playing_fields(9)]
  have wave: "fst (draw zero_frame custom_playing) = None"
    unfolding v4 using v5 by (simp add: resized_def zero_frame_def)
  have hid: "rect_width hidden_frame \<le> 0"
    by (simp add: hidden_frame_def zero_frame_def)
  obtain calls where c: "ctx playing_node = Some calls"
    using playing_node_fields(10) by blast
  obtain drawn where d: "ctx circular_node = Some drawn"
    using circular_node_fields by blast
  have r: "resized zero_frame \<lparr>width = 800, height = 200\<rparr> = \<lparr>width = 800, height = 200\<rparr>"
    by (simp add: resized_def zero_frame_def)
  note p = draw_paints_at_every_size
         [OF c playing_node_fields(1) playing_node_fields(2), where e = narrow_frame
          and WIDTH = 0 and HEIGHT = 200]
  note q = draw_paints_at_every_size
         [OF d circular_node_fields [THEN conjunct1]
             circular_node_fields [THEN conjunct2, THEN conjunct1],
          where e = zero_frame and WIDTH = 800 and HEIGHT = 200]
  note p3 = p [THEN conjunct2, THEN conjunct2, THEN conjunct1]
  note p4 = p [THEN conjunct2, THEN conjunct2, THEN conjunct2, THEN conjunct1]
  note p6 = p [THEN conjunct2, THEN conjunct2, THEN conjunct2, THEN conjunct2, THEN conjunct2,
               THEN conjunct1, rule_format, OF playing_node_fields(9)]
  note p9 = p [THEN conjunct2, THEN conjunct2, THEN conjunct2, THEN conjunct2, THEN conjunct2,
               THEN conjunct2, THEN conjunct2, THEN conjunct2, THEN conjunct1, rule_format]
  have m: "mode (config circular_node) = CIRCULAR \<and> (40::nat) \<le> min 800 200"
    using circular_node_fields by simp
  note q4 = q [THEN conjunct2, THEN conjunct2, THEN conjunct2, THEN conjunct1]
  note q8 = q [THEN conjunct2, THEN conjunct2, THEN conjunct2, THEN conjunct2, THEN conjunct2,
               THEN conjunct2, THEN conjunct2, THEN conjunct1, rule_format, OF m]
  note q9 = q [THEN conjunct2, THEN conjunct2, THEN conjunct2, THEN conjunct2, THEN conjunct2,
               THEN conjunct2, THEN conjunct2, THEN conjunct2, THEN conjunct1, rule_format]
  have bars: "fst (draw narrow_frame playing_node) = None"
    unfolding p4 narrow_resize using p6 by simp
  have circ: "fst (draw zero_frame circular_node) = None"
    unfolding q4 r using q8 by simp
  have a1: "canvas (snd (draw narrow_frame playing_node)) = Some \<lparr>width = 0, height = 200\<rparr>"
    unfolding p3 narrow_resize by (rule refl)
  have a2: "take 2 (renderBackground playing_node 0 200) =
        [SetFillStyle (Plain (Css (backgroundColor (config playing_node)))),
         FillRect (Finite 0) (Finite 0) (Finite 0) (Finite 200)]"
    using p [THEN conjunct2, THEN conjunct1] by (simp add: narrow_resize)
  have a3: "animationFrameId (snd (draw narrow_frame playing_node)) = Some 2"
    using p9 [OF bars] by (simp add: playing_node_fields)
  have b: "animationFrameId (snd (draw zero_frame circular_node)) = Some 3"
    using q9 [OF circ] circular_node_fields by simp
  note z = draw_paints_at_every_size
         [OF c playing_node_fields(1) playing_node_fields(2), where e = hidden_frame]
  have keep: "resized hidden_frame \<lparr>width = 800, height = 200\<rparr> = \<lparr>width = 800, height = 200\<rparr>"
    using z [THEN conjunct2, THEN conjunct2, THEN conjunct2, THEN conjunct2, THEN conjunct2,
             THEN conjunct2, THEN conjunct2, THEN conjunct2, THEN conjunct2, rule_format]
          hid
    by blast
  have a4: "canvas (snd (draw hidden_frame playing_node)) = Some \<lparr>width = 800, height = 200\<rparr>"
    using z [THEN conjunct2, THEN conjunct2, THEN conjunct1] keep by simp
  from a1 a2 a3 a4 b bars circ wave hid m playing_node_fields circular_node_fields
       custom_playing_fields(9)
  show ?thesis by simp
qed

subsection \<open>The circular mode on a small canvas\<close>

lemma small_resize:
  "resized small_frame \<lparr>width = 800, height = 200\<rparr> = \<lparr>width = 30, height = 200\<rparr>"
  by (simp add: resized_def small_frame_def zero_frame_def)

text \<open>
  C3 where the code fails it. The official node plays in the circular mode, and the next
  frame finds the box on screen 30 wide. The frame gives the canvas that width; the disc
  of \<^verbatim>\<open>drawCircular\<close> then has the radius \<open>30 / 4 - 10\<close>, \<^verbatim>\<open>arc\<close> throws after
  \<^verbatim>\<open>beginPath\<close>, no bin is drawn, and no further frame is requested.
\<close>

theorem circular_small_canvas_throws:
  "mode (config circular_node) = CIRCULAR
   \<and> pendingFrames circular_node = [2]
   \<and> fst (runFrame small_frame 2 circular_node) = Some IndexSizeError
   \<and> canvas (snd (runFrame small_frame 2 circular_node)) = Some \<lparr>width = 30, height = 200\<rparr>
   \<and> pendingFrames (snd (runFrame small_frame 2 circular_node)) = []
   \<and> drawCircular (config circular_node) analyser_2048 small_frame (newDataArray analyser_2048)
        30 200 1024
      = (replicate 1024 0, [BeginPath], Some IndexSizeError)"
proof -
  obtain drawn where d: "ctx circular_node = Some drawn"
    using circular_node_fields by blast
  have f: "getByteFrequencyData analyser_2048 small_frame (newDataArray analyser_2048)
           = replicate 1024 0"
    by (simp add: freq_fill frequencyBinCount_def analyser_2048_def small_frame_def
        zero_frame_def map_replicate_const)
  have a: "drawCircular (config circular_node) analyser_2048 small_frame
             (newDataArray analyser_2048) 30 200 1024
           = (replicate 1024 0, [BeginPath], Some IndexSizeError)"
    using f by (simp add: drawCircular_narrow)
  have b: "fst (runFrame small_frame 2 circular_node) = Some IndexSizeError
           \<and> canvas (snd (runFrame small_frame 2 circular_node))
               = Some \<lparr>width = 30, height = 200\<rparr>
           \<and> pendingFrames (snd (runFrame small_frame 2 circular_node)) = []"
    by (simp add: runFrame_def cancelAnimationFrame_def draw_def dispatch_circular
        drawCircular_narrow small_resize circular_node_fields d Let_def)
  from a b circular_node_fields show ?thesis by simp
qed

subsection \<open>One render loop\<close>

lemma one_loop_view: "loop_view s' = loop_view s \<Longrightarrow> one_loop s' = one_loop s"
  by (simp add: one_loop_def)

lemma one_loop_cases:
  "one_loop s \<Longrightarrow>
     pendingFrames s = []
     \<or> (\<exists>h. pendingFrames s = [h] \<and> animationFrameId s = Some h \<and> 0 < h \<and> h \<le> lastFrame s
             \<and> isInitialized s \<and> analyser s \<noteq> None \<and> ctx s \<noteq> None)"
  by (auto simp: one_loop_def loop_ok_def loop_view_def split: list.splits)

lemma view_closeContext [simp]: "loop_view (closeContext s) = loop_view s"
  by (simp add: loop_view_def closeContext_def split: option.splits)

lemma view_drawPlaceholder [simp]: "loop_view (drawPlaceholder t s) = loop_view s"
  by (simp add: loop_view_def drawPlaceholder_def split: option.splits)

lemma view_disconnect [simp]: "loop_view (disconnect m s) = loop_view s"
  by (simp add: loop_view_def disconnect_def)

lemma view_reuseSource [simp]: "loop_view (snd (reuseSource m an s)) = loop_view s"
  by (simp add: loop_view_def reuseSource_def connect_def disconnect_def Let_def)

lemma view_spliceSource [simp]: "loop_view (snd (spliceSource el an s)) = loop_view s"
  by (simp add: loop_view_def spliceSource_def reuseSource_def connect_def disconnect_def
        createMediaElementSource_def Let_def split: option.splits)

lemma view_spliceRecover [simp]: "loop_view (snd (spliceRecover el an s)) = loop_view s"
proof -
  have "\<And>b s'. reuseSource m an s = (b, s') \<Longrightarrow> loop_view s' = loop_view s" for m
    using view_reuseSource [of m an s] by simp
  then show ?thesis
    by (auto simp: spliceRecover_def split: option.splits prod.splits bool.splits)
qed

lemma view_simple [simp]:
  "loop_view (setBackgroundOpacity v s) = loop_view s"
  "loop_view (setBackgroundImage img s) = loop_view s"
  "loop_view (playerSets el p r u t s) = loop_view s"
  "loop_view (setFftSize n s) = loop_view s"
  "loop_view (onResize e s) = loop_view s"
  by (simp_all add: loop_view_def setBackgroundOpacity_def setBackgroundImage_def playerSets_def
        setFftSize_def onResize_def Let_def split: option.splits)

lemma stop_clears:
  assumes "one_loop s"
  shows "pendingFrames (stopVisualization s) = []"
    and "lastFrame (stopVisualization s) = lastFrame s"
    and "isInitialized (stopVisualization s) = isInitialized s"
    and "analyser (stopVisualization s) = analyser s"
    and "ctx (stopVisualization s) = ctx s"
    and "one_loop (stopVisualization s)"
  using one_loop_cases [OF assms]
  by (auto simp: stopVisualization_def cancelAnimationFrame_def one_loop_def loop_ok_def
        loop_view_def split: option.splits)

lemma draw_one_loop:
  assumes "pendingFrames s = []" and "isInitialized s"
  shows "one_loop (snd (draw e s))"
    and "pendingFrames (snd (draw e s)) = []
         \<or> pendingFrames (snd (draw e s)) = [lastFrame s + 1]"
  using assms
  by (auto simp: draw_def one_loop_def loop_ok_def loop_view_def requestAnimationFrame_def
        Let_def split: option.splits prod.splits)

lemma start_one_loop:
  assumes "one_loop s"
  shows "one_loop (snd (startVisualization e s))"
proof (cases "\<not> isInitialized s \<or> analyser s = None \<or> ctx s = None")
  case True
  with assms show ?thesis by (simp add: startVisualization_def)
next
  case False
  then have "startVisualization e s = draw e (stopVisualization s)"
    by (auto simp: startVisualization_def)
  moreover have "one_loop (snd (draw e (stopVisualization s)))"
    using stop_clears [OF assms] False by (intro draw_one_loop) simp_all
  ultimately show ?thesis by simp
qed

lemma runFrame_one_loop:
  assumes "one_loop s"
  shows "one_loop (snd (runFrame e h s))"
proof (cases "h \<in> set (pendingFrames s)")
  case False
  with assms show ?thesis by (simp add: runFrame_def)
next
  case True
  with one_loop_cases [OF assms] have p: "pendingFrames s = [h]" and i: "isInitialized s"
    by auto
  have "one_loop (snd (draw e (cancelAnimationFrame h s)))"
    using p i by (intro draw_one_loop) (simp_all add: cancelAnimationFrame_def)
  with True show ?thesis by (simp add: runFrame_def)
qed

lemma one_loop_idle: "pendingFrames s = [] \<Longrightarrow> one_loop s"
  by (simp add: one_loop_def loop_ok_def loop_view_def)

lemma one_loop_steps [simp]:
  "one_loop (closeContext s) = one_loop s"
  "one_loop (drawPlaceholder t s) = one_loop s"
  "one_loop (setBackgroundOpacity v s) = one_loop s"
  "one_loop (setBackgroundImage img s) = one_loop s"
  "one_loop (playerSets el p r u c s) = one_loop s"
  "one_loop (setFftSize n s) = one_loop s"
  "one_loop (onResize e s) = one_loop s"
  by (simp_all add: one_loop_def)

lemma one_loop_updates [simp]:
  "one_loop (s\<lparr>audioContext := a\<rparr>) = one_loop s"
  "one_loop (s\<lparr>nextId := n\<rparr>) = one_loop s"
  "one_loop (s\<lparr>audioElement := b\<rparr>) = one_loop s"
  "one_loop (s\<lparr>loadedListeners := ls\<rparr>) = one_loop s"
  "one_loop (s\<lparr>timers := ts\<rparr>) = one_loop s"
  "one_loop (s\<lparr>elements := els\<rparr>) = one_loop s"
  "one_loop (s\<lparr>config := c\<rparr>) = one_loop s"
  "one_loop (s\<lparr>prop_mode := pm\<rparr>) = one_loop s"
  "one_loop (s\<lparr>prop_enabled := pe\<rparr>) = one_loop s"
  "one_loop (s\<lparr>visualizerEnabled := ve\<rparr>) = one_loop s"
  by (simp_all add: one_loop_def loop_view_def)

lemma one_loop_gains:
  "one_loop s \<Longrightarrow> one_loop (s\<lparr>analyser := Some a\<rparr>)"
  "one_loop s \<Longrightarrow> one_loop (s\<lparr>isInitialized := True\<rparr>)"
  by (auto simp: one_loop_def loop_view_def loop_ok_def split: list.splits)

lemma splice_keeps_loop:
  "spliceSource el an s = (b, s') \<Longrightarrow> one_loop s' = one_loop s"
  "spliceRecover el an s = (b, s') \<Longrightarrow> one_loop s' = one_loop s"
  using view_spliceSource [of el an s] view_spliceRecover [of el an s]
  by (simp_all add: one_loop_def)

lemma view_drops [simp]:
  "loop_view (dropSource s) = loop_view s"
  "loop_view (dropContext s) = loop_view s"
  "loop_view (dropElement s) = loop_view s"
  by (simp_all add: loop_view_def dropSource_def dropContext_def dropElement_def disconnect_def
        closeContext_def split: option.splits)

lemma pending_view: "pendingFrames s = fst (loop_view s)"
  by (simp add: loop_view_def)

lemma pending_forgets:
  "fst (loop_view (s\<lparr>analyser := a, isInitialized := b\<rparr>)) = fst (loop_view s)"
  by (simp add: loop_view_def)

lemma cleanup_idle:
  assumes "one_loop s"
  shows "pendingFrames (cleanup s) = []"
proof -
  have "pendingFrames (cleanup s) = pendingFrames (stopVisualization s)"
    by (simp only: pending_view cleanup_def view_drops pending_forgets)
  with stop_clears(1) [OF assms] show ?thesis by simp
qed

lemma cleanup_one_loop: "one_loop s \<Longrightarrow> one_loop (cleanup s)"
  by (rule one_loop_idle) (rule cleanup_idle)

lemma trySplice_keeps_loop: "one_loop (snd (trySplice el an s)) = one_loop s"
proof (cases "spliceSource el an s")
  case (Pair b s')
  then have a: "one_loop s' = one_loop s" by (rule splice_keeps_loop)
  have "one_loop (snd (spliceRecover el an s')) = one_loop s'"
    by (cases "spliceRecover el an s'") (simp add: splice_keeps_loop)
  with Pair a show ?thesis by (cases b) (simp_all add: trySplice_def)
qed

lemma finishInit_one_loop:
  assumes "one_loop (snd r)"
  shows "one_loop (finishInit e el r)"
proof (cases r)
  case (Pair ok s)
  with assms have l: "one_loop s" by simp
  then have l1: "one_loop (s\<lparr>isInitialized := True\<rparr>)" by (rule one_loop_gains)
  then have l2: "one_loop (snd (startVisualization e (s\<lparr>isInitialized := True\<rparr>)))"
    by (rule start_one_loop)
  have l3: "one_loop (case startVisualization e (s\<lparr>isInitialized := True\<rparr>) of
                        (None, s2) \<Rightarrow> s2
                      | (Some x, s2) \<Rightarrow> drawPlaceholder Unsupported s2)"
    using l2
    by (cases "startVisualization e (s\<lparr>isInitialized := True\<rparr>)")
       (simp split: option.splits)
  show ?thesis
    unfolding Pair finishInit_def Let_def prod.case
    using l l1 l3 by (simp only: if_split) blast
qed

lemma initContext_one_loop:
  assumes "one_loop s"
  shows "one_loop (initContext e el s)"
proof -
  define s1 where "s1 = closeContext s"
  define c where "c = nextId s1"
  define s2 where
    "s2 = s1\<lparr>audioContext := Some c, nextId := c + 1, analyser := Some (freshAnalyser c)\<rparr>"
  define an where
    "an = (freshAnalyser c)\<lparr>an_fftSize := fftSize (config s2), smoothingTimeConstant := 85 / 100\<rparr>"
  have l1: "one_loop s1" using assms by (simp add: s1_def)
  have "one_loop (s1\<lparr>analyser := Some (freshAnalyser c)\<rparr>)"
    using l1 by (rule one_loop_gains)
  then have l2: "one_loop s2" by (simp add: s2_def one_loop_def loop_view_def)
  have l3: "one_loop (s2\<lparr>analyser := Some an\<rparr>)" using l2 by (rule one_loop_gains)
  have l4: "one_loop (finishInit e el (trySplice el an (s2\<lparr>analyser := Some an\<rparr>)))"
    by (rule finishInit_one_loop) (simp only: trySplice_keeps_loop l3)
  have "initContext e el s =
          (if \<not> audioSupported e then drawPlaceholder Unsupported s1
           else if \<not> accepted_fftSize (fftSize (config s2)) then drawPlaceholder Unsupported s2
           else finishInit e el (trySplice el an (s2\<lparr>analyser := Some an\<rparr>)))"
    unfolding initContext_def Let_def s1_def c_def s2_def an_def by (rule refl)
  moreover have "one_loop (drawPlaceholder Unsupported s1)" using l1 by simp
  moreover have "one_loop (drawPlaceholder Unsupported s2)" using l2 by simp
  ultimately show ?thesis using l4 by presburger
qed

lemma idle_updates:
  "one_loop s \<Longrightarrow> one_loop (s\<lparr>audioElement := a\<rparr>)"
  "one_loop s \<Longrightarrow> one_loop (s\<lparr>loadedListeners := l\<rparr>)"
  "one_loop s \<Longrightarrow> one_loop (s\<lparr>timers := t\<rparr>)"
  by simp_all

lemma connect_one_loop:
  assumes "one_loop s"
  shows "one_loop (snd (connectToAudioElement e target s))"
proof (cases target)
  case None
  with assms show ?thesis by (simp add: connectToAudioElement_def)
next
  case (Some el)
  define s1 where "s1 = (if audioElement s \<noteq> Some el then cleanup s else s)"
  define s2 where "s2 = s1\<lparr>audioElement := Some el\<rparr>"
  define s3 where "s3 = s2\<lparr>loadedListeners := loadedListeners s2 @ [el]\<rparr>"
  have l1: "one_loop s1" using assms by (simp add: s1_def cleanup_one_loop)
  have l2: "one_loop s2" using l1 by (simp add: s2_def)
  have l3: "one_loop s3" using l2 by (simp add: s3_def)
  have l4: "one_loop (s3\<lparr>timers := timers s3 @ [el]\<rparr>)" using l3 by simp
  have l5: "one_loop (initContext e el s2)" using l2 by (rule initContext_one_loop)
  have l6: "one_loop (snd (startVisualization e s))" using assms by (rule start_one_loop)
  have "snd (connectToAudioElement e target s) =
          (if \<not> visualizerEnabled s then s
           else if audioElement s = Some el \<and> isInitialized s
                then (if \<not> running s then snd (startVisualization e s) else s)
                else if readyState (elements s2 el) \<ge> 2 then initContext e el s2
                     else if \<not> paused (elements s3 el) then s3\<lparr>timers := timers s3 @ [el]\<rparr>
                          else s3)"
    unfolding connectToAudioElement_def Let_def s1_def s2_def s3_def Some option.case
    by (simp only: if_distrib [where f = snd] snd_conv)
  with assms l3 l4 l5 l6 show ?thesis by presburger
qed

lemma callbacks_one_loop:
  assumes "one_loop s"
  shows "one_loop (onLoadedData e el s)" and "one_loop (onTimeout e el s)"
proof -
  have "one_loop (initContext e el (s\<lparr>loadedListeners := remove1 el (loadedListeners s)\<rparr>))"
    using assms by (intro initContext_one_loop) simp
  with assms show "one_loop (onLoadedData e el s)" by (simp add: onLoadedData_def)
  have a: "one_loop (s\<lparr>timers := remove1 el (timers s)\<rparr>)" using assms by simp
  then have "one_loop (initContext e el (s\<lparr>timers := remove1 el (timers s)\<rparr>))"
    by (rule initContext_one_loop)
  with assms a show "one_loop (onTimeout e el s)"
    unfolding onTimeout_def Let_def by presburger
qed

lemma setMode_one_loop:
  assumes "one_loop s"
  shows "one_loop (snd (setMode e m s))"
proof -
  define s2 where
    "s2 = (if isOfficialNode (s\<lparr>config := (config s)\<lparr>mode := m\<rparr>\<rparr>)
           then s\<lparr>config := (config s)\<lparr>mode := m\<rparr>\<rparr>\<lparr>prop_mode := Some m\<rparr>
           else s\<lparr>config := (config s)\<lparr>mode := m\<rparr>\<rparr>)"
  have l2: "one_loop s2" using assms by (simp add: s2_def)
  then have l3: "one_loop (snd (startVisualization e s2))" by (rule start_one_loop)
  have "snd (setMode e m s) =
          (if mode (config s) = m then s
           else if isInitialized s2 then snd (startVisualization e s2) else s2)"
    unfolding setMode_def Let_def s2_def by (simp only: if_distrib [where f = snd] snd_conv)
  with assms l2 l3 show ?thesis by presburger
qed

lemma setEnabled_one_loop:
  assumes "one_loop s"
  shows "one_loop (snd (setEnabled e b s))"
proof -
  define s2 where
    "s2 = (if isOfficialNode (s\<lparr>visualizerEnabled := b\<rparr>)
           then s\<lparr>visualizerEnabled := b\<rparr>
                 \<lparr>prop_enabled := Some (visualizerEnabled (s\<lparr>visualizerEnabled := b\<rparr>))\<rparr>
           else s\<lparr>visualizerEnabled := b\<rparr>)"
  have l2: "one_loop s2" using assms by (simp add: s2_def)
  have l3: "one_loop (cleanup s2)" using l2 by (rule cleanup_one_loop)
  have l4: "one_loop (snd (case audioUI s2 of
                             Some el \<Rightarrow>
                               if \<not> paused (elements s2 el)
                               then connectToAudioElement e (Some el) s2 else (None, s2)
                           | None \<Rightarrow> (None, s2)))"
    using l2 by (simp add: connect_one_loop split: option.splits)
  have "snd (setEnabled e b s) =
          (if \<not> visualizerEnabled s2 then cleanup s2
           else if isOfficialNode s2
                then snd (case audioUI s2 of
                            Some el \<Rightarrow>
                              if \<not> paused (elements s2 el)
                              then connectToAudioElement e (Some el) s2 else (None, s2)
                          | None \<Rightarrow> (None, s2))
                else s2)"
    unfolding setEnabled_def Let_def s2_def by (simp only: if_distrib [where f = snd] snd_conv)
  with l2 l3 l4 show ?thesis by presburger
qed

lemma listeners_one_loop:
  assumes "one_loop s"
  shows "one_loop (snd (onPlay e s))" and "one_loop (onStop s)"
  using assms
  by (simp_all add: onPlay_def onStop_def connect_one_loop stop_clears split: option.splits)

lemma loadAudio_one_loop:
  assumes "one_loop s"
  shows "one_loop (snd (loadAudio e url s))"
proof -
  have l1: "one_loop (cleanup s)" using assms by (rule cleanup_one_loop)
  then show ?thesis using assms
    by (simp add: loadAudio_def Let_def connect_one_loop split: option.splits)
qed

lemma handleAudioChange_one_loop:
  assumes "one_loop s"
  shows "one_loop (snd (handleAudioChange e v s))"
  using assms
  by (simp add: handleAudioChange_def checkSrc_def cleanup_one_loop connect_one_loop
        loadAudio_one_loop split: option.splits)

lemma reachable_one_loop: "reachable s \<Longrightarrow> one_loop s"
proof (induction rule: reachable.induct)
  case (r_new s)
  then show ?case by (simp add: constructed_def one_loop_idle)
qed (simp_all add: connect_one_loop callbacks_one_loop start_one_loop stop_clears
       runFrame_one_loop cleanup_one_loop setMode_one_loop setEnabled_one_loop
       listeners_one_loop loadAudio_one_loop handleAudioChange_one_loop)

lemma stop_twice: "stopVisualization (stopVisualization s) = stopVisualization s"
  by (simp add: stopVisualization_def cancelAnimationFrame_def split: option.splits)

lemma start_replaces:
  assumes "one_loop s" and "pendingFrames s = [h]"
  shows "h \<notin> set (pendingFrames (snd (startVisualization e s)))"
proof -
  from one_loop_cases [OF assms(1)] assms(2)
  have f: "h \<le> lastFrame s" "isInitialized s" "analyser s \<noteq> None" "ctx s \<noteq> None"
    by auto
  then have "startVisualization e s = draw e (stopVisualization s)"
    by (auto simp: startVisualization_def)
  moreover have "pendingFrames (snd (draw e (stopVisualization s))) = []
      \<or> pendingFrames (snd (draw e (stopVisualization s)))
          = [lastFrame (stopVisualization s) + 1]"
    using stop_clears [OF assms(1)] f by (intro draw_one_loop) simp_all
  ultimately show ?thesis
    using stop_clears(2) [OF assms(1)] f(1) by auto
qed

lemma official_node_constructed: "constructed official_node"
  by (simp add: constructed_def official_node_def createCanvasWidget_def newVisualizer_def
        drawPlaceholder_def spliced_once_def newAudio_def)

lemma playing_node_reachable: "reachable playing_node"
  unfolding playing_node_def loaded_node_def
  by (intro r_connect r_player r_new official_node_constructed)

text \<open>
  C7. In every state a visualizer can reach, at most one animation frame of the render
  loop is pending. Starting the visualization cancels the request that was pending (it is
  no longer pending afterwards) and leaves at most one; running a frame leaves at most one;
  stopping leaves none, and stopping twice is stopping once.
\<close>

theorem one_render_loop:
  assumes "reachable s"
  shows "length (pendingFrames s) \<le> 1
       \<and> (\<forall>h \<in> set (pendingFrames s).
             h \<notin> set (pendingFrames (snd (startVisualization e s))))
       \<and> length (pendingFrames (snd (startVisualization e s))) \<le> 1
       \<and> length (pendingFrames (snd (runFrame e k s))) \<le> 1
       \<and> pendingFrames (stopVisualization s) = []
       \<and> stopVisualization (stopVisualization s) = stopVisualization s"
proof -
  note l = reachable_one_loop [OF assms]
  have a: "length (pendingFrames s) \<le> 1"
    using one_loop_cases [OF l] by auto
  have b: "\<forall>h \<in> set (pendingFrames s).
             h \<notin> set (pendingFrames (snd (startVisualization e s)))"
    using one_loop_cases [OF l] start_replaces [OF l] by auto
  have c: "length (pendingFrames (snd (startVisualization e s))) \<le> 1"
    using one_loop_cases [OF start_one_loop [OF l, of e]] by auto
  have d: "length (pendingFrames (snd (runFrame e k s))) \<le> 1"
    using one_loop_cases [OF runFrame_one_loop [OF l, of e k]] by auto
  from a b c d stop_clears(1) [OF l] stop_twice show ?thesis by simp
qed

theorem one_render_loop_witness:
  "reachable playing_node
   \<and> pendingFrames playing_node = [1]
   \<and> 1 \<notin> set (pendingFrames (snd (startVisualization zero_frame playing_node)))
   \<and> length (pendingFrames (snd (startVisualization zero_frame playing_node))) \<le> 1
   \<and> pendingFrames (stopVisualization playing_node) = []"
proof -
  from one_render_loop [OF playing_node_reachable, of zero_frame 1]
       playing_node_reachable playing_node_fields(4)
  show ?thesis by simp
qed

subsection \<open>One source node for an element\<close>

lemma elements_kept [simp]:
  "elements (closeContext s) = elements s"
  "elements (drawPlaceholder t s) = elements s"
  "elements (disconnect m s) = elements s"
  "elements (stopVisualization s) = elements s"
  "elements (dropSource s) = elements s"
  "elements (dropContext s) = elements s"
  "elements (setBackgroundOpacity v s) = elements s"
  "elements (setBackgroundImage img s) = elements s"
  "elements (setFftSize n s) = elements s"
  "elements (onResize e s) = elements s"
  by (simp_all add: closeContext_def drawPlaceholder_def disconnect_def stopVisualization_def
        cancelAnimationFrame_def dropSource_def dropContext_def setBackgroundOpacity_def
        setBackgroundImage_def setFftSize_def onResize_def Let_def split: option.splits)

lemma elements_draw [simp]: "elements (snd (draw e s)) = elements s"
  by (simp add: draw_def requestAnimationFrame_def Let_def split: option.splits prod.splits)

lemma elements_start [simp]: "elements (snd (startVisualization e s)) = elements s"
  by (simp add: startVisualization_def)

lemma elements_runFrame [simp]: "elements (snd (runFrame e h s)) = elements s"
  by (simp add: runFrame_def cancelAnimationFrame_def)

lemma elements_reuse [simp]: "elements (snd (reuseSource m an s)) = elements s"
  by (simp add: reuseSource_def connect_def disconnect_def Let_def)

lemma elements_recover [simp]: "elements (snd (spliceRecover el an s)) = elements s"
proof (cases "marker (elements s el)")
  case None
  then show ?thesis by (simp add: spliceRecover_def)
next
  case (Some m)
  obtain b s' where r: "reuseSource m an s = (b, s')" by (cases "reuseSource m an s")
  with elements_reuse [of m an s] have "elements s' = elements s" by simp
  with Some r show ?thesis by (cases b) (simp_all add: spliceRecover_def)
qed

lemma spliced_ok_same: "elements s' = elements s \<Longrightarrow> spliced_ok s' = spliced_ok s"
  by (simp add: spliced_ok_def)

lemma splice_spliced_ok:
  assumes "spliced_ok s"
  shows "spliced_ok (snd (spliceSource el an s))"
proof (cases "marker (elements s el)")
  case (Some m)
  then have "snd (spliceSource el an s) = snd (reuseSource m an s)"
    by (simp add: spliceSource_def)
  with assms show ?thesis by (simp add: spliced_ok_def)
next
  case None
  with assms have z: "requested (elements s el) = 0"
    by (simp add: spliced_ok_def spliced_once_def)
  define m where "m = \<lparr>src_id = nextId s, src_context = an_context an\<rparr>"
  have "elements (snd (spliceSource el an s))
        = (elements s)(el := (elements s el)\<lparr>requested := 1, marker := Some m\<rparr>)"
    using None z
    by (simp add: spliceSource_def createMediaElementSource_def connect_def Let_def m_def)
  with assms show ?thesis
    by (simp add: spliced_ok_def spliced_once_def)
qed

lemma spliced_ok_updates [simp]:
  "spliced_ok (s\<lparr>audioContext := a\<rparr>) = spliced_ok s"
  "spliced_ok (s\<lparr>nextId := n\<rparr>) = spliced_ok s"
  "spliced_ok (s\<lparr>analyser := an\<rparr>) = spliced_ok s"
  "spliced_ok (s\<lparr>isInitialized := i\<rparr>) = spliced_ok s"
  "spliced_ok (s\<lparr>audioElement := b\<rparr>) = spliced_ok s"
  "spliced_ok (s\<lparr>loadedListeners := ls\<rparr>) = spliced_ok s"
  "spliced_ok (s\<lparr>timers := ts\<rparr>) = spliced_ok s"
  "spliced_ok (s\<lparr>config := c\<rparr>) = spliced_ok s"
  "spliced_ok (s\<lparr>prop_mode := pm\<rparr>) = spliced_ok s"
  "spliced_ok (s\<lparr>prop_enabled := pe\<rparr>) = spliced_ok s"
  "spliced_ok (s\<lparr>visualizerEnabled := ve\<rparr>) = spliced_ok s"
  by (simp_all add: spliced_ok_def)

lemma spliced_ok_steps [simp]:
  "spliced_ok (closeContext s) = spliced_ok s"
  "spliced_ok (drawPlaceholder t s) = spliced_ok s"
  "spliced_ok (stopVisualization s) = spliced_ok s"
  "spliced_ok (snd (startVisualization e s)) = spliced_ok s"
  "spliced_ok (snd (runFrame e h s)) = spliced_ok s"
  "spliced_ok (dropSource s) = spliced_ok s"
  "spliced_ok (dropContext s) = spliced_ok s"
  "spliced_ok (setBackgroundOpacity v s) = spliced_ok s"
  "spliced_ok (setBackgroundImage img s) = spliced_ok s"
  "spliced_ok (setFftSize n s) = spliced_ok s"
  "spliced_ok (onResize e s) = spliced_ok s"
  "spliced_ok (snd (spliceRecover el an s)) = spliced_ok s"
  by (simp_all add: spliced_ok_def)

lemma dropElement_spliced_ok: "spliced_ok s \<Longrightarrow> spliced_ok (dropElement s)"
  by (simp add: spliced_ok_def spliced_once_def dropElement_def split: option.splits)

lemma playerSets_spliced_ok: "spliced_ok s \<Longrightarrow> spliced_ok (playerSets el p r u t s)"
  by (simp add: spliced_ok_def spliced_once_def playerSets_def)

lemma cleanup_spliced_ok: "spliced_ok s \<Longrightarrow> spliced_ok (cleanup s)"
  unfolding cleanup_def by (rule dropElement_spliced_ok) simp

lemma trySplice_spliced_ok:
  assumes "spliced_ok s"
  shows "spliced_ok (snd (trySplice el an s))"
proof (cases "spliceSource el an s")
  case (Pair b s')
  with splice_spliced_ok [OF assms, of el an] have a: "spliced_ok s'" by simp
  then have "spliced_ok (snd (spliceRecover el an s'))" by simp
  with Pair a show ?thesis by (cases b) (simp_all add: trySplice_def)
qed

lemma finishInit_spliced_ok:
  assumes "spliced_ok (snd r)"
  shows "spliced_ok (finishInit e el r)"
proof (cases r)
  case (Pair ok s)
  with assms have l: "spliced_ok s" by simp
  have "spliced_ok (snd (startVisualization e (s\<lparr>isInitialized := True\<rparr>)))"
    using l by simp
  then have "spliced_ok (case startVisualization e (s\<lparr>isInitialized := True\<rparr>) of
                           (None, s2) \<Rightarrow> s2
                         | (Some x, s2) \<Rightarrow> drawPlaceholder Unsupported s2)"
    by (cases "startVisualization e (s\<lparr>isInitialized := True\<rparr>)")
       (simp split: option.splits)
  with l show ?thesis
    unfolding Pair finishInit_def Let_def prod.case by simp
qed

lemma initContext_spliced_ok:
  assumes "spliced_ok s"
  shows "spliced_ok (initContext e el s)"
proof -
  define s1 where "s1 = closeContext s"
  define c where "c = nextId s1"
  define s2 where
    "s2 = s1\<lparr>audioContext := Some c, nextId := c + 1, analyser := Some (freshAnalyser c)\<rparr>"
  define an where
    "an = (freshAnalyser c)\<lparr>an_fftSize := fftSize (config s2), smoothingTimeConstant := 85 / 100\<rparr>"
  have l1: "spliced_ok s1" using assms by (simp add: s1_def)
  have l2: "spliced_ok s2" using l1 by (simp add: s2_def)
  have l3: "spliced_ok (s2\<lparr>analyser := Some an\<rparr>)" using l2 by simp
  have l4: "spliced_ok (finishInit e el (trySplice el an (s2\<lparr>analyser := Some an\<rparr>)))"
    by (rule finishInit_spliced_ok) (rule trySplice_spliced_ok [OF l3])
  have "initContext e el s =
          (if \<not> audioSupported e then drawPlaceholder Unsupported s1
           else if \<not> accepted_fftSize (fftSize (config s2)) then drawPlaceholder Unsupported s2
           else finishInit e el (trySplice el an (s2\<lparr>analyser := Some an\<rparr>)))"
    unfolding initContext_def Let_def s1_def c_def s2_def an_def by (rule refl)
  moreover have "spliced_ok (drawPlaceholder Unsupported s1)" using l1 by simp
  moreover have "spliced_ok (drawPlaceholder Unsupported s2)" using l2 by simp
  ultimately show ?thesis using l4 by presburger
qed

lemma connect_spliced_ok:
  assumes "spliced_ok s"
  shows "spliced_ok (snd (connectToAudioElement e target s))"
proof (cases target)
  case None
  with assms show ?thesis by (simp add: connectToAudioElement_def)
next
  case (Some el)
  define s1 where "s1 = (if audioElement s \<noteq> Some el then cleanup s else s)"
  define s2 where "s2 = s1\<lparr>audioElement := Some el\<rparr>"
  define s3 where "s3 = s2\<lparr>loadedListeners := loadedListeners s2 @ [el]\<rparr>"
  have l1: "spliced_ok s1" using assms by (simp add: s1_def cleanup_spliced_ok)
  have l2: "spliced_ok s2" using l1 by (simp add: s2_def)
  have l3: "spliced_ok s3" using l2 by (simp add: s3_def)
  have l4: "spliced_ok (s3\<lparr>timers := timers s3 @ [el]\<rparr>)" using l3 by simp
  have l5: "spliced_ok (initContext e el s2)" using l2 by (rule initContext_spliced_ok)
  have l6: "spliced_ok (snd (startVisualization e s))" using assms by simp
  have "snd (connectToAudioElement e target s) =
          (if \<not> visualizerEnabled s then s
           else if audioElement s = Some el \<and> isInitialized s
                then (if \<not> running s then snd (startVisualization e s) else s)
                else if readyState (elements s2 el) \<ge> 2 then initContext e el s2
                     else if \<not> paused (elements s3 el) then s3\<lparr>timers := timers s3 @ [el]\<rparr>
                          else s3)"
    unfolding connectToAudioElement_def Let_def s1_def s2_def s3_def Some option.case
    by (simp only: if_distrib [where f = snd] snd_conv)
  with assms l3 l4 l5 l6 show ?thesis by presburger
qed

lemma callbacks_spliced_ok:
  assumes "spliced_ok s"
  shows "spliced_ok (onLoadedData e el s)" and "spliced_ok (onTimeout e el s)"
proof -
  have "spliced_ok (initContext e el (s\<lparr>loadedListeners := remove1 el (loadedListeners s)\<rparr>))"
    using assms by (intro initContext_spliced_ok) simp
  with assms show "spliced_ok (onLoadedData e el s)" by (simp add: onLoadedData_def)
  have a: "spliced_ok (s\<lparr>timers := remove1 el (timers s)\<rparr>)" using assms by simp
  then have "spliced_ok (initContext e el (s\<lparr>timers := remove1 el (timers s)\<rparr>))"
    by (rule initContext_spliced_ok)
  with assms a show "spliced_ok (onTimeout e el s)"
    unfolding onTimeout_def Let_def by presburger
qed

lemma setMode_spliced_ok: "spliced_ok s \<Longrightarrow> spliced_ok (snd (setMode e m s))"
  by (simp add: setMode_def Let_def)

lemma setEnabled_spliced_ok:
  assumes "spliced_ok s"
  shows "spliced_ok (snd (setEnabled e b s))"
proof -
  define s2 where
    "s2 = (if isOfficialNode (s\<lparr>visualizerEnabled := b\<rparr>)
           then s\<lparr>visualizerEnabled := b\<rparr>
                 \<lparr>prop_enabled := Some (visualizerEnabled (s\<lparr>visualizerEnabled := b\<rparr>))\<rparr>
           else s\<lparr>visualizerEnabled := b\<rparr>)"
  have l2: "spliced_ok s2" using assms by (simp add: s2_def)
  have l3: "spliced_ok (cleanup s2)" using l2 by (rule cleanup_spliced_ok)
  have l4: "spliced_ok (snd (case audioUI s2 of
                               Some el \<Rightarrow>
                                 if \<not> paused (elements s2 el)
                                 then connectToAudioElement e (Some el) s2 else (None, s2)
                             | None \<Rightarrow> (None, s2)))"
    using l2 by (simp add: connect_spliced_ok split: option.splits)
  have "snd (setEnabled e b s) =
          (if \<not> visualizerEnabled s2 then cleanup s2
           else if isOfficialNode s2
                then snd (case audioUI s2 of
                            Some el \<Rightarrow>
                              if \<not> paused (elements s2 el)
                              then connectToAudioElement e (Some el) s2 else (None, s2)
                          | None \<Rightarrow> (None, s2))
                else s2)"
    unfolding setEnabled_def Let_def s2_def by (simp only: if_distrib [where f = snd] snd_conv)
  with l2 l3 l4 show ?thesis by presburger
qed

lemma listeners_spliced_ok:
  assumes "spliced_ok s"
  shows "spliced_ok (snd (onPlay e s))" and "spliced_ok (onStop s)"
  using assms
  by (simp_all add: onPlay_def onStop_def connect_spliced_ok split: option.splits)

lemma loadAudio_spliced_ok:
  assumes "spliced_ok s"
  shows "spliced_ok (snd (loadAudio e url s))"
proof -
  have l1: "spliced_ok (cleanup s)" using assms by (rule cleanup_spliced_ok)
  have "spliced_ok ((cleanup s)\<lparr>elements := (elements (cleanup s))(Created (nextId (cleanup s)) := newAudio url),
                       nextId := nextId (cleanup s) + 1,
                       audioElement := Some (Created (nextId (cleanup s)))\<rparr>)"
    using l1 by (simp add: spliced_ok_def spliced_once_def newAudio_def)
  with l1 assms show ?thesis
    by (simp add: loadAudio_def Let_def connect_spliced_ok split: option.splits)
qed

lemma handleAudioChange_spliced_ok:
  assumes "spliced_ok s"
  shows "spliced_ok (snd (handleAudioChange e v s))"
  using assms
  by (simp add: handleAudioChange_def checkSrc_def cleanup_spliced_ok connect_spliced_ok
        loadAudio_spliced_ok split: option.splits)

lemma reachable_spliced_ok: "reachable s \<Longrightarrow> spliced_ok s"
proof (induction rule: reachable.induct)
  case (r_new s)
  then show ?case by (simp add: constructed_def spliced_ok_def)
qed (simp_all add: connect_spliced_ok callbacks_spliced_ok cleanup_spliced_ok
       setMode_spliced_ok setEnabled_spliced_ok listeners_spliced_ok loadAudio_spliced_ok
       handleAudioChange_spliced_ok playerSets_spliced_ok)

lemma attach_again:
  assumes "isInitialized s" and "audioElement s = Some el"
  shows "connectToAudioElement e (Some el) s
         = (if visualizerEnabled s \<and> \<not> running s then startVisualization e s else (None, s))"
  using assms by (simp add: connectToAudioElement_def)

lemma graph_draw [simp]:
  "source (snd (draw e s)) = source s"
  "wired (snd (draw e s)) = wired s"
  by (simp_all add: draw_def requestAnimationFrame_def Let_def split: option.splits prod.splits)

lemma graph_start [simp]:
  "source (snd (startVisualization e s)) = source s"
  "wired (snd (startVisualization e s)) = wired s"
  by (simp_all add: startVisualization_def stopVisualization_def cancelAnimationFrame_def
        split: option.splits)

lemma graph_drawPlaceholder [simp]:
  "source (drawPlaceholder t s) = source s"
  "wired (drawPlaceholder t s) = wired s"
  by (simp_all add: drawPlaceholder_def split: option.splits)

text \<open>
  An element that carries the marker: the inner \<^verbatim>\<open>try\<close> takes the marked node as the
  source, removes its connections and connects it to the analyser, which the browser
  accepts exactly when the node belongs to the analyser's context. The \<^verbatim>\<open>catch\<close> does the
  same once more.
\<close>

lemma reuse_marked:
  "source (snd (reuseSource m an s)) = Some m"
  "elements (snd (reuseSource m an s)) = elements s"
  "wired (snd (reuseSource m an s)) (src_id m)
     = (if src_context m = an_context an then Some (an_context an) else None)"
  "fst (reuseSource m an s) = (src_context m = an_context an)"
  by (simp_all add: reuseSource_def connect_def disconnect_def Let_def)

lemma trySplice_marked:
  assumes "marker (elements s el) = Some m"
  shows "source (snd (trySplice el an s)) = Some m"
    and "elements (snd (trySplice el an s)) = elements s"
    and "wired (snd (trySplice el an s)) (src_id m)
           = (if src_context m = an_context an then Some (an_context an) else None)"
proof -
  obtain ok s1 where r1: "reuseSource m an s = (ok, s1)" by (cases "reuseSource m an s")
  obtain ok2 s2 where r2: "reuseSource m an s1 = (ok2, s2)" by (cases "reuseSource m an s1")
  have f1: "source s1 = Some m" "elements s1 = elements s"
    "wired s1 (src_id m) = (if src_context m = an_context an then Some (an_context an) else None)"
    using reuse_marked(1-3) [of m an s] r1 by simp_all
  have f2: "source s2 = Some m" "elements s2 = elements s1"
    "wired s2 (src_id m) = (if src_context m = an_context an then Some (an_context an) else None)"
    using reuse_marked(1-3) [of m an s1] r2 by simp_all
  have m1: "marker (elements s1 el) = Some m" using assms f1(2) by simp
  have t: "snd (trySplice el an s)
           = (if ok then s1 else if ok2 then s2 else drawPlaceholder CannotConnect s2)"
    using assms m1 r1 r2 by (simp add: trySplice_def spliceSource_def spliceRecover_def)
  show "source (snd (trySplice el an s)) = Some m"
    unfolding t using f1 f2 by simp
  show "elements (snd (trySplice el an s)) = elements s"
    unfolding t using f1 f2 by simp
  show "wired (snd (trySplice el an s)) (src_id m)
           = (if src_context m = an_context an then Some (an_context an) else None)"
    unfolding t using f1 f2 by simp
qed

lemma finishInit_graph:
  "source (finishInit e el r) = source (snd r)"
  "elements (finishInit e el r) = elements (snd r)"
  "wired (finishInit e el r) = wired (snd r)"
proof -
  obtain ok s where r: "r = (ok, s)" by (cases r)
  obtain x s2 where v: "startVisualization e (s\<lparr>isInitialized := True\<rparr>) = (x, s2)"
    by (cases "startVisualization e (s\<lparr>isInitialized := True\<rparr>)")
  have g: "source s2 = source s" "elements s2 = elements s" "wired s2 = wired s"
    using graph_start [of e "s\<lparr>isInitialized := True\<rparr>"]
          elements_start [of e "s\<lparr>isInitialized := True\<rparr>"] v
    by simp_all
  show "source (finishInit e el r) = source (snd r)"
    using g by (simp add: r finishInit_def Let_def v split: option.splits)
  show "elements (finishInit e el r) = elements (snd r)"
    using g by (simp add: r finishInit_def Let_def v split: option.splits)
  show "wired (finishInit e el r) = wired (snd r)"
    using g by (simp add: r finishInit_def Let_def v split: option.splits)
qed

lemma closeContext_keeps [simp]:
  "nextId (closeContext s) = nextId s"
  "config (closeContext s) = config s"
  by (simp_all add: closeContext_def split: option.splits)

lemma initContext_marked:
  assumes "marker (elements s el) = Some m" and "audioSupported e"
    and "accepted_fftSize (fftSize (config s))"
  shows "source (initContext e el s) = Some m"
    and "elements (initContext e el s) = elements s"
    and "wired (initContext e el s) (src_id m)
           = (if src_context m = nextId s then Some (nextId s) else None)"
proof -
  define s1 where "s1 = closeContext s"
  define c where "c = nextId s1"
  define s2 where
    "s2 = s1\<lparr>audioContext := Some c, nextId := c + 1, analyser := Some (freshAnalyser c)\<rparr>"
  define an where
    "an = (freshAnalyser c)\<lparr>an_fftSize := fftSize (config s2), smoothingTimeConstant := 85 / 100\<rparr>"
  define s3 where "s3 = s2\<lparr>analyser := Some an\<rparr>"
  have c: "c = nextId s" by (simp add: c_def s1_def)
  have ac: "an_context an = nextId s" by (simp add: an_def freshAnalyser_def c)
  have f: "accepted_fftSize (fftSize (config s2))"
    using assms(3) by (simp add: s2_def s1_def)
  have els: "elements s3 = elements s" by (simp add: s3_def s2_def s1_def)
  then have m3: "marker (elements s3 el) = Some m" using assms(1) by simp
  have "initContext e el s =
          (if \<not> audioSupported e then drawPlaceholder Unsupported s1
           else if \<not> accepted_fftSize (fftSize (config s2)) then drawPlaceholder Unsupported s2
           else finishInit e el (trySplice el an s3))"
    unfolding initContext_def Let_def s1_def c_def s2_def an_def s3_def by (rule refl)
  then have i: "initContext e el s = finishInit e el (trySplice el an s3)"
    using assms(2) f by simp
  show "source (initContext e el s) = Some m"
    unfolding i finishInit_graph by (rule trySplice_marked(1) [OF m3])
  show "elements (initContext e el s) = elements s"
    unfolding i finishInit_graph trySplice_marked(2) [OF m3] by (rule els)
  show "wired (initContext e el s) (src_id m)
           = (if src_context m = nextId s then Some (nextId s) else None)"
    unfolding i finishInit_graph trySplice_marked(3) [OF m3] ac by (rule refl)
qed

lemma waiting_node_fields:
  "loadedListeners waiting_node = [Widget 0]"
  "audioElement waiting_node = Some (Widget 0)"
  "\<not> isInitialized waiting_node"
  "visualizerEnabled waiting_node"
  "readyState (elements waiting_node (Widget 0)) = 0"
  "paused (elements waiting_node (Widget 0))"
  by (simp_all add: waiting_node_def unfold_all)




subsection \<open>Teardown and the player\<close>

lemma stop_keeps [simp]:
  "source (stopVisualization s) = source s"
  "wired (stopVisualization s) = wired s"
  "audioContext (stopVisualization s) = audioContext s"
  "closedContexts (stopVisualization s) = closedContexts s"
  "isOfficialNode (stopVisualization s) = isOfficialNode s"
  "audioElement (stopVisualization s) = audioElement s"
  by (simp_all add: stopVisualization_def cancelAnimationFrame_def split: option.splits)

lemma dropSource_keeps [simp]:
  "source (dropSource s) = None"
  "audioContext (dropSource s) = audioContext s"
  "closedContexts (dropSource s) = closedContexts s"
  "isOfficialNode (dropSource s) = isOfficialNode s"
  "audioElement (dropSource s) = audioElement s"
  by (simp_all add: dropSource_def disconnect_def split: option.splits)

lemma dropSource_unwires: "source s = Some m \<Longrightarrow> wired (dropSource s) (src_id m) = None"
  by (simp add: dropSource_def disconnect_def)

lemma dropContext_keeps [simp]:
  "source (dropContext s) = source s"
  "wired (dropContext s) = wired s"
  "isOfficialNode (dropContext s) = isOfficialNode s"
  "audioElement (dropContext s) = audioElement s"
  by (simp_all add: dropContext_def closeContext_def split: option.splits)

lemma dropContext_closes:
  "audioContext s = Some c \<Longrightarrow> c \<in> closedContexts (dropContext s)"
  "audioContext s = Some c \<Longrightarrow> c \<notin> closedContexts s \<Longrightarrow> audioContext (dropContext s) = None"
  by (simp_all add: dropContext_def closeContext_def)

lemma dropElement_keeps [simp]:
  "source (dropElement s) = source s"
  "wired (dropElement s) = wired s"
  "analyser (dropElement s) = analyser s"
  "isInitialized (dropElement s) = isInitialized s"
  "audioContext (dropElement s) = audioContext s"
  "closedContexts (dropElement s) = closedContexts s"
  "audioElement (dropElement s) = None"
  by (simp_all add: dropElement_def split: option.splits)

lemma stage_frame [simp]:
  "canvas (stopVisualization s) = canvas s"
  "ctx (stopVisualization s) = ctx s"
  "config (stopVisualization s) = config s"
  "visualizerEnabled (stopVisualization s) = visualizerEnabled s"
  "loadedListeners (stopVisualization s) = loadedListeners s"
  "timers (stopVisualization s) = timers s"
  "canvas (dropSource s) = canvas s"
  "ctx (dropSource s) = ctx s"
  "config (dropSource s) = config s"
  "visualizerEnabled (dropSource s) = visualizerEnabled s"
  "loadedListeners (dropSource s) = loadedListeners s"
  "timers (dropSource s) = timers s"
  "canvas (dropContext s) = canvas s"
  "ctx (dropContext s) = ctx s"
  "config (dropContext s) = config s"
  "visualizerEnabled (dropContext s) = visualizerEnabled s"
  "loadedListeners (dropContext s) = loadedListeners s"
  "timers (dropContext s) = timers s"
  "canvas (dropElement s) = canvas s"
  "ctx (dropElement s) = ctx s"
  "config (dropElement s) = config s"
  "visualizerEnabled (dropElement s) = visualizerEnabled s"
  "loadedListeners (dropElement s) = loadedListeners s"
  "timers (dropElement s) = timers s"
  by (simp_all add: stopVisualization_def cancelAnimationFrame_def dropSource_def
        disconnect_def dropContext_def closeContext_def dropElement_def split: option.splits)

lemma cleanup_frame:
  "canvas (cleanup s) = canvas s"
  "ctx (cleanup s) = ctx s"
  "config (cleanup s) = config s"
  "visualizerEnabled (cleanup s) = visualizerEnabled s"
  "loadedListeners (cleanup s) = loadedListeners s"
  "timers (cleanup s) = timers s"
  by (simp_all add: cleanup_def)

lemma cleanup_elements:
  "elements (cleanup s) =
     (if isOfficialNode s then elements s
      else case audioElement s of
             Some el \<Rightarrow> (elements s)(el := (elements s el)\<lparr>paused := True, src := []\<rparr>)
           | None \<Rightarrow> elements s)"
  by (simp add: cleanup_def dropElement_def split: option.splits)

lemma cleanup_clears:
  "source (cleanup s) = None"
  "analyser (cleanup s) = None"
  "audioElement (cleanup s) = None"
  "\<not> isInitialized (cleanup s)"
  by (simp_all add: cleanup_def)

lemma cleanup_releases:
  "source s = Some m \<Longrightarrow> wired (cleanup s) (src_id m) = None"
  "audioContext s = Some c \<Longrightarrow> c \<in> closedContexts (cleanup s)"
  "audioContext s = Some c \<Longrightarrow> c \<notin> closedContexts s \<Longrightarrow> audioContext (cleanup s) = None"
proof -
  let ?t = "dropSource (stopVisualization s)"
  show "wired (cleanup s) (src_id m) = None" if "source s = Some m"
    using dropSource_unwires [of "stopVisualization s" m] that by (simp add: cleanup_def)
  show "c \<in> closedContexts (cleanup s)" if "audioContext s = Some c"
    using dropContext_closes(1) [of ?t c] that by (simp add: cleanup_def)
  show "audioContext (cleanup s) = None" if "audioContext s = Some c" "c \<notin> closedContexts s"
    using dropContext_closes(2) [of ?t c] that by (simp add: cleanup_def)
qed

text \<open>
  C6, as stated, fails for a custom node: while its element plays the file it has loaded,
  \<^verbatim>\<open>cleanup\<close> pauses the element and empties its \<^verbatim>\<open>src\<close>.
\<close>

theorem cleanup_pauses_counterexample:
  "reachable custom_playing
   \<and> audioElement custom_playing = Some (Widget 0)
   \<and> \<not> paused (elements custom_playing (Widget 0))
   \<and> paused (elements (cleanup custom_playing) (Widget 0))
   \<and> src (elements custom_playing (Widget 0)) = ''a.wav''
   \<and> src (elements (cleanup custom_playing) (Widget 0)) = []"
  by (simp add: cleanup_elements custom_playing_fields custom_playing_reachable)

text \<open>
  C6, amended. In every state a visualizer can reach, \<^verbatim>\<open>cleanup\<close> of an official node,
  whose element is the player's, changes no audio element: nothing is paused, sought or
  reloaded. \<^verbatim>\<open>cleanup\<close> of a custom node, whose element the visualizer made itself, pauses
  the element it is bound to and empties its \<^verbatim>\<open>src\<close>, and changes no other element. In
  both cases no frame is pending afterwards, the source node has lost its connections,
  the audio context is closed, and is forgotten when it was open before, and the source,
  the analyser, the element and the initialized flag are cleared; the canvas and what was
  drawn on it, the configuration, the switch of the visualizer and the callbacks that wait
  are as before.
\<close>

theorem cleanup_leaves_playback:
  assumes "reachable s"
  shows "(isOfficialNode s \<longrightarrow> elements (cleanup s) = elements s)
       \<and> (\<not> isOfficialNode s \<longrightarrow>
            elements (cleanup s) =
              (case audioElement s of
                 Some el \<Rightarrow> (elements s)(el := (elements s el)\<lparr>paused := True, src := []\<rparr>)
               | None \<Rightarrow> elements s))
       \<and> pendingFrames (cleanup s) = []
       \<and> (\<forall>m. source s = Some m \<longrightarrow> wired (cleanup s) (src_id m) = None)
       \<and> (\<forall>c. audioContext s = Some c \<longrightarrow> c \<in> closedContexts (cleanup s))
       \<and> (\<forall>c. audioContext s = Some c \<and> c \<notin> closedContexts s \<longrightarrow>
             audioContext (cleanup s) = None)
       \<and> source (cleanup s) = None
       \<and> analyser (cleanup s) = None
       \<and> audioElement (cleanup s) = None
       \<and> \<not> isInitialized (cleanup s)
       \<and> canvas (cleanup s) = canvas s
       \<and> ctx (cleanup s) = ctx s
       \<and> config (cleanup s) = config s
       \<and> visualizerEnabled (cleanup s) = visualizerEnabled s
       \<and> loadedListeners (cleanup s) = loadedListeners s
       \<and> timers (cleanup s) = timers s"
  using cleanup_idle [OF reachable_one_loop [OF assms]] cleanup_releases [of s]
  by (simp add: cleanup_elements cleanup_clears cleanup_frame)

theorem cleanup_leaves_playback_witness:
  "reachable playing_node
   \<and> isOfficialNode playing_node
   \<and> elements (cleanup playing_node) = elements playing_node
   \<and> \<not> paused (elements (cleanup playing_node) (Widget 0))
   \<and> pendingFrames playing_node = [1]
   \<and> pendingFrames (cleanup playing_node) = []
   \<and> source playing_node = Some \<lparr>src_id = 1, src_context = 0\<rparr>
   \<and> wired playing_node 1 = Some 0
   \<and> wired (cleanup playing_node) 1 = None
   \<and> audioContext playing_node = Some 0
   \<and> 0 \<notin> closedContexts playing_node
   \<and> 0 \<in> closedContexts (cleanup playing_node)
   \<and> audioContext (cleanup playing_node) = None"
proof -
  note t = cleanup_leaves_playback [OF playing_node_reachable]
  have o: "isOfficialNode playing_node" by (rule playing_node_fields(15))
  have a: "elements (cleanup playing_node) = elements playing_node"
    using t [THEN conjunct1] o by simp
  have p: "\<not> paused (elements playing_node (Widget 0))"
    by (simp add: playing_node_def unfold_all split: prod.splits)
  have b: "pendingFrames (cleanup playing_node) = []"
    using t by simp
  have c: "wired (cleanup playing_node) 1 = None"
    using t [THEN conjunct2, THEN conjunct2, THEN conjunct2, THEN conjunct1, rule_format,
             OF playing_node_graph(3)]
    by simp
  have d: "0 \<in> closedContexts (cleanup playing_node)"
    using t [THEN conjunct2, THEN conjunct2, THEN conjunct2, THEN conjunct2, THEN conjunct1,
             rule_format, OF playing_node_graph(4)] .
  have h: "audioContext playing_node = Some 0 \<and> 0 \<notin> closedContexts playing_node"
    by (simp add: playing_node_graph)
  have f: "audioContext (cleanup playing_node) = None"
    using t [THEN conjunct2, THEN conjunct2, THEN conjunct2, THEN conjunct2, THEN conjunct2,
             THEN conjunct1, rule_format, OF h] .
  from a p b c d f o playing_node_reachable playing_node_fields(4) playing_node_graph
  show ?thesis by simp
qed

end
